theory Spec2Isabelle
  imports Complex_Main "HOL-Library.AList" "HOL-Library.Char_ord" "HOL-Library.List_Lexorder"
    "HOL-Library.Product_Lexorder"
begin

section \<open>The planning model: sets, parameters and variable values\<close>

text \<open>
  The optimisation engine builds Pyomo models. A model is a bag of named components:
  index sets (lists, in their declared order), parameters (functions of their index) and
  decision variables. Floating-point numbers are modelled as real numbers, identifiers as
  strings. The components that both the deterministic builder (\<open>build_model\<close>) and the
  stochastic builder (\<open>build_stochastic_model\<close>) declare under the same name form the
  base record; every builder extends it with its own components.
\<close>

type_synonym plant_id = string
type_synonym month = string
type_synonym scenario = string
type_synonym route = "string \<times> string \<times> string"

record core =
  P :: "plant_id list"
  T :: "month list"
  R :: "route list"
  CL :: "plant_id list"
  IJ :: "(string \<times> string) list"
  MaxInv :: "plant_id \<Rightarrow> real"
  HoldCost :: "plant_id \<Rightarrow> real"
  ProdCap :: "plant_id \<Rightarrow> real"
  ProdCost :: "plant_id \<Rightarrow> real"
  RouteEnabled :: "route \<Rightarrow> bool"

text \<open>
  An aggregate shipment limit of the Excel data set: the dictionary
  \<open>{'lower': ..., 'upper': ...}\<close>, where a key may be missing or hold \<open>None\<close>.
\<close>

record limits =
  lower :: "real option"
  upper :: "real option"

text \<open>
  Values of the decision variables. The type parameter is \<open>real\<close> when an expression
  of the model is read as a function of the variables, and \<open>real option\<close> for the
  values a solver has loaded into the model (\<open>None\<close>: the variable has no value).
\<close>

record 'a shared_vals =
  Prod :: "plant_id \<Rightarrow> month \<Rightarrow> 'a"
  Ship :: "route \<Rightarrow> month \<Rightarrow> 'a"
  Trips :: "route \<Rightarrow> month \<Rightarrow> 'a"

record 'a vals = "'a shared_vals" +
  Use :: "route \<Rightarrow> month \<Rightarrow> 'a"
  Inv :: "plant_id \<Rightarrow> month \<Rightarrow> 'a"
  DemandSlack :: "plant_id \<Rightarrow> month \<Rightarrow> 'a"

text \<open>
  A reference to one indexed variable of the deterministic model, and the value that a
  solver has loaded for it.
\<close>

datatype var_ref =
    ProdVar plant_id month
  | ShipVar route month
  | TripsVar route month
  | UseVar route month
  | InvVar plant_id month
  | DemandSlackVar plant_id month

fun var_value :: "real option vals \<Rightarrow> var_ref \<Rightarrow> real option" where
  "var_value sol (ProdVar p t) = Prod sol p t"
| "var_value sol (ShipVar r t) = Ship sol r t"
| "var_value sol (TripsVar r t) = Trips sol r t"
| "var_value sol (UseVar r t) = Use sol r t"
| "var_value sol (InvVar p t) = Inv sol p t"
| "var_value sol (DemandSlackVar p t) = DemandSlack sol p t"

text \<open>
  The deterministic model of \<open>backend/optimization/model.py\<close>. The optional components
  \<open>TransportCodeLimitSet\<close> and \<open>TransportCodeLimits\<close> are \<open>None\<close> when the model has
  no such attribute (\<open>hasattr\<close> is false). \<open>DemandPenalty\<close> is the parameter that
  \<open>add_feasible_constraints\<close> attaches to the model, \<open>TotalCost\<close> the objective
  expression that \<open>add_objective\<close> or \<open>add_feasible_objective\<close> attaches, read as a
  function of the variable values, and \<open>TotalCost_vars\<close> the variables that occur in that
  expression.
\<close>

record model = core +
  PREV_T :: "month \<Rightarrow> month option"
  Inv0 :: "plant_id \<Rightarrow> real"
  Safety :: "plant_id \<Rightarrow> real"
  Demand :: "plant_id \<Rightarrow> month \<Rightarrow> real"
  RouteCost :: "route \<Rightarrow> real"
  RouteCap :: "route \<Rightarrow> real"
  RouteSBQ :: "route \<Rightarrow> real"
  TransportCodeLimitSet :: "(string \<times> string \<times> month) list option"
  TransportCodeLimits :: "((string \<times> string \<times> month) \<rightharpoonup> limits) option"
  DemandPenalty :: real
  TotalCost :: "real vals \<Rightarrow> real"
  TotalCost_vars :: "var_ref list"

section \<open>Objectives\<close>

text \<open>
  \<open>total_cost_rule\<close> (\<open>objective.py\<close>): the expression that the rule of the
  deterministic objective returns, as a function of the variable values.
  \<open>add_objective\<close> attaches it to the model.
\<close>

definition total_cost_rule :: "model \<Rightarrow> real vals \<Rightarrow> real" where
  "total_cost_rule m v =
     (let production_cost = sum_list [Prod v p t * ProdCost m p. p \<leftarrow> P m, t \<leftarrow> T m];
          transport_cost = sum_list [Trips v r t * RouteCost m r. r \<leftarrow> R m, t \<leftarrow> T m];
          holding_cost = sum_list [Inv v p t * HoldCost m p. p \<leftarrow> P m, t \<leftarrow> T m]
      in production_cost + transport_cost + holding_cost)"

definition add_objective :: "model \<Rightarrow> model" where
  "add_objective m =
     m\<lparr>TotalCost := total_cost_rule m,
       TotalCost_vars :=
         [ProdVar p t. p \<leftarrow> P m, t \<leftarrow> T m] @ [TripsVar r t. r \<leftarrow> R m, t \<leftarrow> T m]
           @ [InvVar p t. p \<leftarrow> P m, t \<leftarrow> T m]\<rparr>"

text \<open>
  \<open>add_feasible_objective\<close> (\<open>feasible_objective.py\<close>): the expression \<open>total_cost\<close>
  and its attachment to the model.
\<close>

definition feasible_total_cost :: "model \<Rightarrow> real vals \<Rightarrow> real" where
  "feasible_total_cost m v =
     (let production_cost = sum_list [ProdCost m p * Prod v p t. p \<leftarrow> P m, t \<leftarrow> T m];
          transport_cost = sum_list [RouteCost m r * Ship v r t. r \<leftarrow> R m, t \<leftarrow> T m];
          holding_cost = sum_list [HoldCost m p * Inv v p t. p \<leftarrow> P m, t \<leftarrow> T m];
          demand_penalty = sum_list [DemandPenalty m * DemandSlack v p t. p \<leftarrow> P m, t \<leftarrow> T m]
      in production_cost + transport_cost + holding_cost + demand_penalty)"

definition add_feasible_objective :: "model \<Rightarrow> model" where
  "add_feasible_objective m =
     m\<lparr>TotalCost := feasible_total_cost m,
       TotalCost_vars :=
         [ProdVar p t. p \<leftarrow> P m, t \<leftarrow> T m] @ [ShipVar r t. r \<leftarrow> R m, t \<leftarrow> T m]
           @ [InvVar p t. p \<leftarrow> P m, t \<leftarrow> T m] @ [DemandSlackVar p t. p \<leftarrow> P m, t \<leftarrow> T m]\<rparr>"

text \<open>
  The objective as the specification words it for the feasibility-repair variant: the
  deterministic objective plus the penalty times the sum of all slack variables.
\<close>

definition spec_feasible_objective :: "model \<Rightarrow> real vals \<Rightarrow> real" where
  "spec_feasible_objective m v =
     TotalCost (add_objective m) v
       + DemandPenalty m * sum_list [DemandSlack v p t. p \<leftarrow> P m, t \<leftarrow> T m]"

text \<open>
  A model with two plants, one route and one month, used to evaluate the definitions;
  it carries the deterministic objective.
\<close>

definition example_model :: model where
  "example_model =
     add_objective
       \<lparr> P = [''A'', ''B''], T = [''2025-01''], R = [(''A'', ''B'', ''Road'')], CL = [''A''],
         IJ = [(''A'', ''B'')], MaxInv = (\<lambda>_. 100), HoldCost = (\<lambda>_. 1), ProdCap = (\<lambda>_. 100),
         ProdCost = (\<lambda>_. 10), RouteEnabled = (\<lambda>_. True),
         PREV_T = (\<lambda>_. None), Inv0 = (\<lambda>_. 0), Safety = (\<lambda>_. 10),
         Demand = (\<lambda>_ _. 0), RouteCost = (\<lambda>_. 20), RouteCap = (\<lambda>_. 50),
         RouteSBQ = (\<lambda>_. 10),
         TransportCodeLimitSet = Some [(''A'', ''Road'', ''2025-01'')],
         TransportCodeLimits =
           Some [(''A'', ''Road'', ''2025-01'') \<mapsto> \<lparr> lower = Some 10, upper = Some 40 \<rparr>],
         DemandPenalty = 10000, TotalCost = (\<lambda>_. 0), TotalCost_vars = [] \<rparr>"

definition example_vals :: "real vals" where
  "example_vals =
     \<lparr> Prod = (\<lambda>_ _. 0), Ship = (\<lambda>_ _. 5), Trips = (\<lambda>_ _. 1),
       Use = (\<lambda>_ _. 1), Inv = (\<lambda>_ _. 0), DemandSlack = (\<lambda>_ _. 2) \<rparr>"

section \<open>Constraints\<close>

text \<open>
  A constraint rule returns \<open>Constraint.Skip\<close> or a relation between two linear
  expressions. Read at given variable values, the relation is a pair of numbers and a
  comparison: \<open>Ge a b\<close> stands for \<open>a >= b\<close>, \<open>Le a b\<close> for \<open>a <= b\<close>.
\<close>

datatype con = Skip | Ge real real | Le real real

fun holds :: "con \<Rightarrow> bool" where
  "holds Skip = True"
| "holds (Ge a b) = (a \<ge> b)"
| "holds (Le a b) = (a \<le> b)"

subsection \<open>The deterministic rules (\<open>constraints.py\<close>, \<open>add_constraints\<close>)\<close>

definition safety_stock_rule :: "model \<Rightarrow> real vals \<Rightarrow> plant_id \<Rightarrow> month \<Rightarrow> con" where
  "safety_stock_rule m v p t = Ge (Inv v p t) (Safety m p)"

definition max_inventory_rule :: "model \<Rightarrow> real vals \<Rightarrow> plant_id \<Rightarrow> month \<Rightarrow> con" where
  "max_inventory_rule m v p t = Le (Inv v p t) (MaxInv m p)"

definition sbq_rule :: "model \<Rightarrow> real vals \<Rightarrow> route \<Rightarrow> month \<Rightarrow> con" where
  "sbq_rule m v r t = Ge (Ship v r t) (Trips v r t * RouteSBQ m r)"

text \<open>
  \<open>total_shipped\<close>: the shipments in month \<open>t\<close> on all routes that leave \<open>i\<close> with
  transport code \<open>k\<close>.
\<close>

definition total_shipped :: "model \<Rightarrow> real vals \<Rightarrow> string \<Rightarrow> string \<Rightarrow> month \<Rightarrow> real" where
  "total_shipped m v i k t =
     sum_list [Ship v (ii, jj, k) t. (ii, jj, kk) \<leftarrow> R m, ii = i \<and> kk = k]"

definition transport_code_limit_lower_rule ::
  "model \<Rightarrow> ((string \<times> string \<times> month) \<rightharpoonup> limits) \<Rightarrow> real vals \<Rightarrow> string \<Rightarrow> string \<Rightarrow> month \<Rightarrow> con" where
  "transport_code_limit_lower_rule m lims v i k t =
     (case lims (i, k, t) of
        None \<Rightarrow> Skip
      | Some l \<Rightarrow>
          (case lower l of
             None \<Rightarrow> Skip
           | Some lo \<Rightarrow> Ge (total_shipped m v i k t) lo))"

definition transport_code_limit_upper_rule ::
  "model \<Rightarrow> ((string \<times> string \<times> month) \<rightharpoonup> limits) \<Rightarrow> real vals \<Rightarrow> string \<Rightarrow> string \<Rightarrow> month \<Rightarrow> con" where
  "transport_code_limit_upper_rule m lims v i k t =
     (case lims (i, k, t) of
        None \<Rightarrow> Skip
      | Some l \<Rightarrow>
          (case upper l of
             None \<Rightarrow> Skip
           | Some up \<Rightarrow> Le (total_shipped m v i k t) up))"

text \<open>
  The constraint families: \<open>pyo.Constraint(index sets, rule=...)\<close> applies the rule to
  every index. The two families of aggregate limits exist only when the model has both
  \<open>TransportCodeLimits\<close> and \<open>TransportCodeLimitSet\<close>.
\<close>

definition add_constraints_SafetyStock :: "model \<Rightarrow> real vals \<Rightarrow> con list" where
  "add_constraints_SafetyStock m v = [safety_stock_rule m v p t. p \<leftarrow> P m, t \<leftarrow> T m]"

definition add_constraints_MaxInventory :: "model \<Rightarrow> real vals \<Rightarrow> con list" where
  "add_constraints_MaxInventory m v = [max_inventory_rule m v p t. p \<leftarrow> P m, t \<leftarrow> T m]"

definition add_constraints_SBQ :: "model \<Rightarrow> real vals \<Rightarrow> con list" where
  "add_constraints_SBQ m v = [sbq_rule m v r t. r \<leftarrow> R m, t \<leftarrow> T m]"

definition add_constraints_TransportCodeLimitLower :: "model \<Rightarrow> real vals \<Rightarrow> con list" where
  "add_constraints_TransportCodeLimitLower m v =
     (case TransportCodeLimits m of
        None \<Rightarrow> []
      | Some lims \<Rightarrow>
          (case TransportCodeLimitSet m of
             None \<Rightarrow> []
           | Some idx \<Rightarrow> [transport_code_limit_lower_rule m lims v i k t. (i, k, t) \<leftarrow> idx]))"

definition add_constraints_TransportCodeLimitUpper :: "model \<Rightarrow> real vals \<Rightarrow> con list" where
  "add_constraints_TransportCodeLimitUpper m v =
     (case TransportCodeLimits m of
        None \<Rightarrow> []
      | Some lims \<Rightarrow>
          (case TransportCodeLimitSet m of
             None \<Rightarrow> []
           | Some idx \<Rightarrow> [transport_code_limit_upper_rule m lims v i k t. (i, k, t) \<leftarrow> idx]))"

subsection \<open>The feasibility-repair rules (\<open>feasible_constraints.py\<close>)\<close>

definition feasible_safety_stock_rule :: "model \<Rightarrow> real vals \<Rightarrow> plant_id \<Rightarrow> month \<Rightarrow> con" where
  "feasible_safety_stock_rule m v p t = Ge (Inv v p t) (Safety m p * 0.8)"

definition feasible_max_inventory_rule :: "model \<Rightarrow> real vals \<Rightarrow> plant_id \<Rightarrow> month \<Rightarrow> con" where
  "feasible_max_inventory_rule m v p t = Le (Inv v p t) (MaxInv m p * 1.2)"

definition feasible_sbq_rule :: "model \<Rightarrow> real vals \<Rightarrow> route \<Rightarrow> month \<Rightarrow> con" where
  "feasible_sbq_rule m v r t =
     (if RouteSBQ m r > 0
      then Ge (Ship v r t) (Trips v r t * RouteSBQ m r * 0.5)
      else Skip)"

definition feasible_transport_code_limit_lower_rule ::
  "model \<Rightarrow> ((string \<times> string \<times> month) \<rightharpoonup> limits) \<Rightarrow> real vals \<Rightarrow> string \<Rightarrow> string \<Rightarrow> month \<Rightarrow> con" where
  "feasible_transport_code_limit_lower_rule m lims v i k t =
     (case lims (i, k, t) of
        None \<Rightarrow> Skip
      | Some l \<Rightarrow>
          (case lower l of
             None \<Rightarrow> Skip
           | Some lo \<Rightarrow> Ge (total_shipped m v i k t) (lo * 0.8)))"

definition feasible_transport_code_limit_upper_rule ::
  "model \<Rightarrow> ((string \<times> string \<times> month) \<rightharpoonup> limits) \<Rightarrow> real vals \<Rightarrow> string \<Rightarrow> string \<Rightarrow> month \<Rightarrow> con" where
  "feasible_transport_code_limit_upper_rule m lims v i k t =
     (case lims (i, k, t) of
        None \<Rightarrow> Skip
      | Some l \<Rightarrow>
          (case upper l of
             None \<Rightarrow> Skip
           | Some up \<Rightarrow> Le (total_shipped m v i k t) (up * 1.2)))"

definition add_feasible_constraints_SafetyStock :: "model \<Rightarrow> real vals \<Rightarrow> con list" where
  "add_feasible_constraints_SafetyStock m v =
     [feasible_safety_stock_rule m v p t. p \<leftarrow> P m, t \<leftarrow> T m]"

definition add_feasible_constraints_MaxInventory :: "model \<Rightarrow> real vals \<Rightarrow> con list" where
  "add_feasible_constraints_MaxInventory m v =
     [feasible_max_inventory_rule m v p t. p \<leftarrow> P m, t \<leftarrow> T m]"

definition add_feasible_constraints_SBQ :: "model \<Rightarrow> real vals \<Rightarrow> con list" where
  "add_feasible_constraints_SBQ m v = [feasible_sbq_rule m v r t. r \<leftarrow> R m, t \<leftarrow> T m]"

definition add_feasible_constraints_TransportCodeLimitLower :: "model \<Rightarrow> real vals \<Rightarrow> con list" where
  "add_feasible_constraints_TransportCodeLimitLower m v =
     (case TransportCodeLimits m of
        None \<Rightarrow> []
      | Some lims \<Rightarrow>
          (case TransportCodeLimitSet m of
             None \<Rightarrow> []
           | Some idx \<Rightarrow>
               [feasible_transport_code_limit_lower_rule m lims v i k t. (i, k, t) \<leftarrow> idx]))"

definition add_feasible_constraints_TransportCodeLimitUpper :: "model \<Rightarrow> real vals \<Rightarrow> con list" where
  "add_feasible_constraints_TransportCodeLimitUpper m v =
     (case TransportCodeLimits m of
        None \<Rightarrow> []
      | Some lims \<Rightarrow>
          (case TransportCodeLimitSet m of
             None \<Rightarrow> []
           | Some idx \<Rightarrow>
               [feasible_transport_code_limit_upper_rule m lims v i k t. (i, k, t) \<leftarrow> idx]))"

text \<open>
  \<open>add_feasible_constraints\<close> also attaches the penalty parameter to the model
  (\<open>pyo.Param(initialize=10000.0, mutable=True)\<close>).
\<close>

definition add_feasible_constraints_DemandPenalty :: "model \<Rightarrow> model" where
  "add_feasible_constraints_DemandPenalty m = m\<lparr>DemandPenalty := 10000\<rparr>"

subsection \<open>The tolerance band of the specification\<close>

text \<open>
  The band as the specification words it: a lower bound is scaled by 0.8, an upper bound
  by 1.2, a skipped constraint stays skipped.
\<close>

fun tolerance_band :: "con \<Rightarrow> con" where
  "tolerance_band Skip = Skip"
| "tolerance_band (Ge a b) = Ge a (b * 0.8)"
| "tolerance_band (Le a b) = Le a (b * 1.2)"

text \<open>The band that the minimum-batch rule uses: the lower bound is halved.\<close>

fun half_band :: "con \<Rightarrow> con" where
  "half_band Skip = Skip"
| "half_band (Ge a b) = Ge a (b * 0.5)"
| "half_band (Le a b) = Le a b"

section \<open>The planning data set and the scenario data\<close>

text \<open>
  \<open>OptimizationData\<close> (\<open>data_loader.py\<close>) and \<open>ScenarioDemandData\<close>
  (\<open>scenario_generator.py\<close>). A Python dictionary is a partial map; the dictionary of
  scenario probabilities is an association list in insertion order, because the generator
  sums its values. The fields \<open>probability\<close> and \<open>demand\<close> of
  \<open>ScenarioDemandData\<close> are \<open>scenario_probability\<close> and \<open>scenario_demand\<close> here.
\<close>

record OptimizationData =
  months :: "month list"
  plant_ids :: "plant_id list"
  plant_names :: "plant_id \<rightharpoonup> string"
  plant_type :: "plant_id \<rightharpoonup> string"
  clinker_plants :: "plant_id list"
  storage_capacity :: "plant_id \<rightharpoonup> real"
  initial_inventory :: "plant_id \<rightharpoonup> real"
  safety_stock :: "plant_id \<rightharpoonup> real"
  max_inventory :: "plant_id \<rightharpoonup> real"
  holding_cost :: "plant_id \<rightharpoonup> real"
  production_capacity :: "plant_id \<rightharpoonup> real"
  production_cost :: "plant_id \<rightharpoonup> real"
  demand :: "(plant_id \<times> month) \<rightharpoonup> real"
  routes :: "route list"
  transport_cost_per_trip :: "route \<rightharpoonup> real"
  transport_capacity_per_trip :: "route \<rightharpoonup> real"
  transport_sbq :: "route \<rightharpoonup> real"
  route_enabled :: "route \<rightharpoonup> bool"

record ScenarioDemandData =
  scenario_names :: "scenario list"
  scenario_probability :: "(scenario \<times> real) list"
  scenario_demand :: "(scenario \<times> plant_id \<times> month) \<rightharpoonup> real"

section \<open>The stochastic model (\<open>stochastic_model.py\<close>)\<close>

text \<open>
  \<open>pyo.Param(index, initialize=d)\<close>: a rule reads the parameter at an index as
  \<open>d[index]\<close>. The builder below fails where a rule would read an index that \<open>d\<close>
  lacks, so \<open>Param d k\<close> is only read where \<open>d\<close> has a value.
\<close>

definition Param :: "('k \<rightharpoonup> 'v) \<Rightarrow> 'k \<Rightarrow> 'v" where
  "Param d k = (case d k of Some x \<Rightarrow> x | None \<Rightarrow> undefined)"

text \<open>
  A declaration \<open>pyo.Var(index sets, within=domain)\<close>: the index tuples, in order, and
  the domain.
\<close>

datatype domain = NonNegativeReals | NonNegativeIntegers | Binary

record var_decl =
  var_index :: "string list list"
  var_within :: domain

text \<open>
  The values of the stochastic model's variables: the shared decisions, the mode
  selection \<open>UseMode\<close> and the scenario-indexed inventory \<open>m.Inv[s, p, t]\<close>, which is
  \<open>InvS\<close> here.
\<close>

record 'a svals = "'a shared_vals" +
  UseMode :: "route \<Rightarrow> month \<Rightarrow> 'a"
  InvS :: "scenario \<Rightarrow> plant_id \<Rightarrow> month \<Rightarrow> 'a"

text \<open>
  The model that \<open>build_stochastic_model\<close> returns. \<open>DemandS\<close> is the component
  \<open>m.Demand\<close>, indexed by scenario, plant and month here; \<open>variables\<close> lists the
  \<open>pyo.Var\<close> components by attribute name, in the order of their declaration;
  \<open>Objective\<close> is the objective expression as a function of the variable values.
\<close>

record smodel = core +
  S :: "scenario list"
  StorageCap :: "plant_id \<Rightarrow> real"
  InitialInv :: "plant_id \<Rightarrow> real"
  SafetyStock :: "plant_id \<Rightarrow> real"
  CostPerTrip :: "route \<Rightarrow> real"
  CapPerTrip :: "route \<Rightarrow> real"
  SBQ :: "route \<Rightarrow> real"
  DemandS :: "scenario \<Rightarrow> plant_id \<Rightarrow> month \<Rightarrow> real"
  Prob :: "scenario \<Rightarrow> real"
  variables :: "(string \<times> var_decl) list"
  Objective :: "real svals \<Rightarrow> real"

text \<open>\<open>expected_cost_obj\<close>: the objective expression, as a function of the variable values.\<close>

definition expected_cost_obj :: "smodel \<Rightarrow> real svals \<Rightarrow> real" where
  "expected_cost_obj mm v =
     (let prod_cost = sum_list [ProdCost mm p * Prod v p t. p \<leftarrow> P mm, t \<leftarrow> T mm];
          trans_cost = sum_list [CostPerTrip mm r * Trips v r t. r \<leftarrow> R mm, t \<leftarrow> T mm];
          hold_cost = sum_list [Prob mm s * HoldCost mm p * InvS v s p t.
                                  s \<leftarrow> S mm, p \<leftarrow> P mm, t \<leftarrow> T mm]
      in prod_cost + trans_cost + hold_cost)"

text \<open>\<open>_demand_init\<close>: \<open>float(scen.demand.get((s, p, t), 0.0) or 0.0)\<close>.\<close>

definition demand_init :: "ScenarioDemandData \<Rightarrow> scenario \<Rightarrow> plant_id \<Rightarrow> month \<Rightarrow> real" where
  "demand_init scen s p t = (case scenario_demand scen (s, p, t) of Some x \<Rightarrow> x | None \<Rightarrow> 0)"

text \<open>
  What the builder relies on in Pyomo. \<open>pyo.Set(initialize=xs)\<close> holds the elements of
  \<open>xs\<close> in their order, each once: a repeated element is dropped. With \<open>within=m.P\<close> an
  element outside \<open>m.P\<close> raises \<open>ValueError\<close>. \<open>pyo.Param(index, initialize=d)\<close>
  raises \<open>KeyError\<close> when \<open>d\<close> has a key that is not in the index set, and a rule that
  reads the parameter at an index without a value raises \<open>ValueError\<close>.
\<close>

definition ordered_set :: "'a list \<Rightarrow> 'a list" where
  "ordered_set xs = rev (remdups (rev xs))"

datatype build_error = NotInDomain | IndexNotValid | ParamUndefined

definition defined_on :: "('k \<rightharpoonup> 'v) \<Rightarrow> 'k list \<Rightarrow> bool" where
  "defined_on d idx = list_all (\<lambda>k. case d k of None \<Rightarrow> False | Some _ \<Rightarrow> True) idx"

text \<open>
  The builder declares the sets, the parameters, the variables and the constraints, and
  attaches the objective last; until then the record holds the constant 0 in its place.
  The constraints are not components of the record, but their rules read parameters, as
  the objective's rule does: with at least one month, the production capacity of every
  clinker plant, the enablement, trip capacity and SBQ of every route, and the production
  cost of every plant and the cost per trip of every route; with at least one scenario
  and one month, the initial inventory, safety stock, maximum inventory and holding cost
  of every plant and, when there is a plant, the probability of every scenario. The
  storage capacity is read by no rule.
\<close>

definition build_stochastic_model ::
  "OptimizationData \<Rightarrow> ScenarioDemandData \<Rightarrow> build_error + smodel" where
  "build_stochastic_model data scen =
     (let mP = ordered_set (plant_ids data); mT = ordered_set (months data);
          mR = ordered_set (routes data);
          mCL = ordered_set (clinker_plants data);
          mS = ordered_set (scenario_names scen);
          prob = map_of (scenario_probability scen);
          ij_pairs = sort (remdups [(i, j). (i, j, _) \<leftarrow> routes data])
      in if \<not> set mCL \<subseteq> set mP then Inl NotInDomain
         else if \<not> (dom (storage_capacity data) \<subseteq> set mP
                    \<and> dom (initial_inventory data) \<subseteq> set mP
                    \<and> dom (safety_stock data) \<subseteq> set mP
                    \<and> dom (max_inventory data) \<subseteq> set mP
                    \<and> dom (holding_cost data) \<subseteq> set mP
                    \<and> dom (production_capacity data) \<subseteq> set mP
                    \<and> dom (production_cost data) \<subseteq> set mP
                    \<and> dom (route_enabled data) \<subseteq> set mR
                    \<and> dom (transport_cost_per_trip data) \<subseteq> set mR
                    \<and> dom (transport_capacity_per_trip data) \<subseteq> set mR
                    \<and> dom (transport_sbq data) \<subseteq> set mR
                    \<and> dom prob \<subseteq> set mS)
         then Inl IndexNotValid
         else if \<not> ((mT = []
                      \<or> (defined_on (production_capacity data) mCL
                          \<and> defined_on (route_enabled data) mR
                          \<and> defined_on (transport_capacity_per_trip data) mR
                          \<and> defined_on (transport_sbq data) mR
                          \<and> defined_on (production_cost data) mP
                          \<and> defined_on (transport_cost_per_trip data) mR))
                    \<and> (mS = [] \<or> mT = []
                        \<or> (defined_on (initial_inventory data) mP
                            \<and> defined_on (safety_stock data) mP
                            \<and> defined_on (max_inventory data) mP
                            \<and> defined_on (holding_cost data) mP
                            \<and> (mP = [] \<or> defined_on prob mS))))
         then Inl ParamUndefined
         else
           (let mm =
                  \<lparr> P = mP, T = mT, R = mR, CL = mCL, IJ = ij_pairs,
                    MaxInv = Param (max_inventory data),
                    HoldCost = Param (holding_cost data),
                    ProdCap = Param (production_capacity data),
                    ProdCost = Param (production_cost data),
                    RouteEnabled = Param (route_enabled data),
                    S = mS,
                    StorageCap = Param (storage_capacity data),
                    InitialInv = Param (initial_inventory data),
                    SafetyStock = Param (safety_stock data),
                    CostPerTrip = Param (transport_cost_per_trip data),
                    CapPerTrip = Param (transport_capacity_per_trip data),
                    SBQ = Param (transport_sbq data),
                    DemandS = demand_init scen,
                    Prob = Param prob,
                    variables =
                      [(''Prod'', \<lparr> var_index = [[p, t]. p \<leftarrow> mP, t \<leftarrow> mT],
                                  var_within = NonNegativeReals \<rparr>),
                       (''Ship'', \<lparr> var_index = [[i, j, k, t]. (i, j, k) \<leftarrow> mR, t \<leftarrow> mT],
                                  var_within = NonNegativeReals \<rparr>),
                       (''Trips'', \<lparr> var_index = [[i, j, k, t]. (i, j, k) \<leftarrow> mR, t \<leftarrow> mT],
                                   var_within = NonNegativeIntegers \<rparr>),
                       (''UseMode'', \<lparr> var_index = [[i, j, k, t]. (i, j, k) \<leftarrow> mR, t \<leftarrow> mT],
                                     var_within = Binary \<rparr>),
                       (''Inv'', \<lparr> var_index = [[s, p, t]. s \<leftarrow> mS, p \<leftarrow> mP, t \<leftarrow> mT],
                                 var_within = NonNegativeReals \<rparr>)],
                    Objective = (\<lambda>_. 0) \<rparr>
            in Inr (mm\<lparr>Objective := expected_cost_obj mm\<rparr>)))"

text \<open>
  The objective as the specification words it, for a model without penalty: the
  production cost plus the probability-weighted sum over the scenarios of the transport
  cost and that scenario's holding cost.
\<close>

definition spec_expected_cost :: "smodel \<Rightarrow> real svals \<Rightarrow> real" where
  "spec_expected_cost mm v =
     sum_list [ProdCost mm p * Prod v p t. p \<leftarrow> P mm, t \<leftarrow> T mm]
       + sum_list [Prob mm s *
                     (sum_list [CostPerTrip mm r * Trips v r t. r \<leftarrow> R mm, t \<leftarrow> T mm]
                        + sum_list [HoldCost mm p * InvS v s p t. p \<leftarrow> P mm, t \<leftarrow> T mm]).
                   s \<leftarrow> S mm]"

definition example_data :: OptimizationData where
  "example_data =
     \<lparr> months = [''2025-01''], plant_ids = [''A'', ''B''],
       plant_names = [''A'' \<mapsto> ''Alpha'', ''B'' \<mapsto> ''Beta''],
       plant_type = [''A'' \<mapsto> ''Clinker Plant'', ''B'' \<mapsto> ''Grinding Unit''],
       clinker_plants = [''A''],
       storage_capacity = [''A'' \<mapsto> 500, ''B'' \<mapsto> 500],
       initial_inventory = [''A'' \<mapsto> 0, ''B'' \<mapsto> 0],
       safety_stock = [''A'' \<mapsto> 0, ''B'' \<mapsto> 0],
       max_inventory = [''A'' \<mapsto> 500, ''B'' \<mapsto> 500],
       holding_cost = [''A'' \<mapsto> 1, ''B'' \<mapsto> 2],
       production_capacity = [''A'' \<mapsto> 100, ''B'' \<mapsto> 0],
       production_cost = [''A'' \<mapsto> 10, ''B'' \<mapsto> 0],
       demand = [(''A'', ''2025-01'') \<mapsto> 0, (''B'', ''2025-01'') \<mapsto> 80],
       routes = [(''A'', ''B'', ''Road'')],
       transport_cost_per_trip = [(''A'', ''B'', ''Road'') \<mapsto> 20],
       transport_capacity_per_trip = [(''A'', ''B'', ''Road'') \<mapsto> 50],
       transport_sbq = [(''A'', ''B'', ''Road'') \<mapsto> 10],
       route_enabled = [(''A'', ''B'', ''Road'') \<mapsto> True] \<rparr>"

definition example_scen :: ScenarioDemandData where
  "example_scen =
     \<lparr> scenario_names = [''Low'', ''High''],
       scenario_probability = [(''Low'', 1/2), (''High'', 1/2)],
       scenario_demand =
         [(''Low'', ''A'', ''2025-01'') \<mapsto> 0, (''Low'', ''B'', ''2025-01'') \<mapsto> 72,
          (''High'', ''A'', ''2025-01'') \<mapsto> 0, (''High'', ''B'', ''2025-01'') \<mapsto> 88] \<rparr>"

definition example_svals :: "real svals" where
  "example_svals =
     \<lparr> Prod = (\<lambda>_ _. 40), Ship = (\<lambda>_ _. 80), Trips = (\<lambda>_ _. 2),
       UseMode = (\<lambda>_ _. 1), InvS = (\<lambda>s _ _. if s = ''Low'' then 8 else 0) \<rparr>"

section \<open>Strings\<close>

text \<open>
  A character is a code point below 256. \<open>isspace\<close> holds for the code points that
  Python's \<open>str.isspace\<close> accepts in that range, \<open>strip\<close> is \<open>str.strip()\<close> and
  \<open>lower\<close> is \<open>str.lower()\<close>.
\<close>

definition isspace :: "char \<Rightarrow> bool" where
  "isspace c = (of_char c \<in> {9::nat, 10, 11, 12, 13, 28, 29, 30, 31, 32, 133, 160})"

definition lower_char :: "char \<Rightarrow> char" where
  "lower_char c =
     (let n = (of_char c :: nat)
      in if (65 \<le> n \<and> n \<le> 90) \<or> (192 \<le> n \<and> n \<le> 222 \<and> n \<noteq> 215)
         then char_of (n + 32) else c)"

definition strip :: "string \<Rightarrow> string" where
  "strip s = rev (dropWhile isspace (rev (dropWhile isspace s)))"

definition lower :: "string \<Rightarrow> string" where
  "lower s = map lower_char s"

section \<open>The solver orchestrator (\<open>solver.py\<close>)\<close>

record SolverConfig =
  solver_name :: string
  time_limit_seconds :: int
  mip_gap :: real

record SolveOutcome =
  ok :: bool
  message :: string
  termination_condition :: string
  solver_status :: string
  solver_used :: "string option"
  runtime_seconds :: "real option"
  solver_log_path :: "string option"

text \<open>
  What the orchestrator meets outside itself. \<open>available name\<close>: the factory returns a
  solver for \<open>name\<close> and the solver reports itself available. \<open>run name\<close>: what the
  \<open>try\<close> block around \<open>solver.solve\<close> does with that backend; it raises, or it
  returns the solver's status and termination condition after some wall-clock time.
  \<open>log_path name\<close> is the log file's path when solver logs are enabled (it holds the
  time of day).
\<close>

datatype solve_result = Raised | Solved string string real

record environment =
  available :: "string \<Rightarrow> bool"
  run :: "string \<Rightarrow> solve_result"
  solver_logs_enabled :: bool
  log_path :: "string \<Rightarrow> string"

definition backends :: "string list" where
  "backends = [''gurobi'', ''cbc'', ''highs'', ''scip'']"

definition fallback_chain :: "string \<Rightarrow> string list" where
  "fallback_chain requested_solver =
     (if requested_solver = ''gurobi'' then [''cbc'', ''highs'', ''scip'']
      else if requested_solver = ''cbc'' then [''highs'', ''scip'']
      else if requested_solver = ''highs'' then [''scip'']
      else [])"

text \<open>
  The loop over the fallback chain, entered when the current solver is not available:
  every step logs the substitution, makes the alternative the current solver and stops
  when it is available. The result is the solver's name after the loop and the
  substitutions logged.
\<close>

fun fallback_loop :: "(string \<Rightarrow> bool) \<Rightarrow> string \<Rightarrow> string list \<Rightarrow> string \<times> (string \<times> string) list" where
  "fallback_loop av cur [] = (cur, [])"
| "fallback_loop av cur (alt # rest) =
     (if av alt then (alt, [(cur, alt)])
      else (case fallback_loop av alt rest of (n, ws) \<Rightarrow> (n, (cur, alt) # ws)))"

definition select_solver :: "environment \<Rightarrow> string \<Rightarrow> string \<times> (string \<times> string) list" where
  "select_solver env requested_solver =
     (if available env requested_solver then (requested_solver, [])
      else fallback_loop (available env) requested_solver (fallback_chain requested_solver))"

definition solve_model :: "environment \<Rightarrow> SolverConfig \<Rightarrow> SolveOutcome" where
  "solve_model env config =
     (let requested_solver = lower (strip (solver_name config))
      in if requested_solver \<notin> set backends
         then \<lparr> ok = False, message = ''Invalid solver selected.'',
                termination_condition = ''invalid'', solver_status = ''invalid'',
                solver_used = None, runtime_seconds = None, solver_log_path = None \<rparr>
         else
           (let name = fst (select_solver env requested_solver)
            in if \<not> available env name
               then \<lparr> ok = False,
                      message = ''No solver is available on this machine. '' @
                        ''Install an open-source solver: SCIP via 'pip install pyscipopt', '' @
                        ''HiGHS via 'pip install highspy', or configure Gurobi/CBC and try again.'',
                      termination_condition = ''not_available'',
                      solver_status = ''not_available'',
                      solver_used = None, runtime_seconds = None, solver_log_path = None \<rparr>
               else
                 (case run env name of
                    Raised \<Rightarrow>
                      \<lparr> ok = False,
                        message = ''Solver failed to run. Please try again or change solver settings.'',
                        termination_condition = ''error'', solver_status = ''error'',
                        solver_used = Some name, runtime_seconds = None,
                        solver_log_path = None \<rparr>
                  | Solved status term runtime \<Rightarrow>
                      (let log = (if solver_logs_enabled env then Some (log_path env name) else None);
                           is_ok = (lower term \<in> {''optimal'', ''feasible''})
                       in if lower term = ''infeasible''
                          then \<lparr> ok = False,
                                 message = ''Model is infeasible (no plan satisfies all constraints). Check inputs and constraints.'',
                                 termination_condition = term, solver_status = status,
                                 solver_used = Some name, runtime_seconds = Some runtime,
                                 solver_log_path = log \<rparr>
                          else if \<not> is_ok
                          then \<lparr> ok = False,
                                 message = ''Solver finished with status='' @ status @
                                   '', termination='' @ term @ ''.'',
                                 termination_condition = term, solver_status = status,
                                 solver_used = Some name, runtime_seconds = Some runtime,
                                 solver_log_path = log \<rparr>
                          else \<lparr> ok = True, message = ''Optimization solved successfully.'',
                                 termination_condition = term, solver_status = status,
                                 solver_used = Some name, runtime_seconds = Some runtime,
                                 solver_log_path = log \<rparr>))))"

definition example_env :: environment where
  "example_env =
     \<lparr> available = (\<lambda>n. n = ''highs''),
       run = (\<lambda>_. Solved ''ok'' ''optimal'' 1),
       solver_logs_enabled = False,
       log_path = (\<lambda>n. ''logs/solver_'' @ n @ ''.log'') \<rparr>"

section \<open>The scenario generator (\<open>scenario_generator.py\<close>)\<close>

record DemandScenario =
  name :: string
  probability :: real
  demand_multiplier :: real

text \<open>
  The \<open>ValueError\<close>s of \<open>generate_demand_scenarios\<close>. A probability and a multiplier
  are numbers here, so the two errors "must be a number" cannot arise.
\<close>

datatype scenario_error =
    NoScenariosConfigured
  | NamesMustBeUnique
  | ProbabilityNegative
  | ProbabilitiesMustSumTo1
  | MultiplierNegative

text \<open>
  The first loop: \<open>prob[s.name] = p\<close> for every scenario in turn, after the check of
  its sign. \<open>AList.update\<close> overwrites the entry of a name that is already a key and
  appends a new key at the end, as a Python dictionary does.
\<close>

fun prob_loop :: "(string \<times> real) list \<Rightarrow> DemandScenario list \<Rightarrow> scenario_error + (string \<times> real) list" where
  "prob_loop prob [] = Inr prob"
| "prob_loop prob (s # ss) =
     (if probability s < 0 then Inl ProbabilityNegative
      else prob_loop (AList.update (name s) (probability s) prob) ss)"

text \<open>\<open>base = float(base_data.demand.get((p, t), 0.0) or 0.0)\<close>\<close>

definition base_demand :: "OptimizationData \<Rightarrow> plant_id \<Rightarrow> month \<Rightarrow> real" where
  "base_demand base_data p t = (case demand base_data (p, t) of Some x \<Rightarrow> x | None \<Rightarrow> 0)"

text \<open>The second loop: for every scenario, after the check of its multiplier, the
  demand of every plant and month is stored under \<open>(s.name, p, t)\<close>.\<close>

definition store_scenario ::
  "OptimizationData \<Rightarrow> DemandScenario \<Rightarrow> ((scenario \<times> plant_id \<times> month) \<rightharpoonup> real)
     \<Rightarrow> ((scenario \<times> plant_id \<times> month) \<rightharpoonup> real)" where
  "store_scenario base_data s dm =
     fold (\<lambda>(p, t) d. d((name s, p, t) \<mapsto> base_demand base_data p t * demand_multiplier s))
       [(p, t). p \<leftarrow> plant_ids base_data, t \<leftarrow> months base_data] dm"

fun demand_loop ::
  "OptimizationData \<Rightarrow> ((scenario \<times> plant_id \<times> month) \<rightharpoonup> real) \<Rightarrow> DemandScenario list
     \<Rightarrow> scenario_error + ((scenario \<times> plant_id \<times> month) \<rightharpoonup> real)" where
  "demand_loop base_data dm [] = Inr dm"
| "demand_loop base_data dm (s # ss) =
     (if demand_multiplier s < 0 then Inl MultiplierNegative
      else demand_loop base_data (store_scenario base_data s dm) ss)"

definition generate_demand_scenarios ::
  "OptimizationData \<Rightarrow> DemandScenario list \<Rightarrow> scenario_error + ScenarioDemandData" where
  "generate_demand_scenarios base_data scenarios =
     (if scenarios = [] then Inl NoScenariosConfigured
      else
        (let names = [strip (name s). s \<leftarrow> scenarios, strip (name s) \<noteq> []]
         in if length names \<noteq> length (remdups names) then Inl NamesMustBeUnique
            else
              (case prob_loop [] scenarios of
                 Inl e \<Rightarrow> Inl e
               | Inr prob \<Rightarrow>
                   (let total_p = sum_list (map snd prob)
                    in if \<bar>total_p - 1\<bar> > 1 / 1000000 then Inl ProbabilitiesMustSumTo1
                       else
                         (case demand_loop base_data Map.empty scenarios of
                            Inl e \<Rightarrow> Inl e
                          | Inr dm \<Rightarrow>
                              Inr \<lparr> scenario_names = names, scenario_probability = prob,
                                    scenario_demand = dm \<rparr>)))))"

text \<open>
  The failure condition as the specification words it: the names are not unique, or a
  probability or a multiplier is negative, or the probabilities do not sum to 1 within
  \<open>1e-6\<close>.
\<close>

definition spec_scenarios_rejected :: "DemandScenario list \<Rightarrow> bool" where
  "spec_scenarios_rejected scenarios =
     (\<not> distinct (map name scenarios)
      \<or> list_ex (\<lambda>s. probability s < 0 \<or> demand_multiplier s < 0) scenarios
      \<or> \<bar>sum_list (map probability scenarios) - 1\<bar> > 1 / 1000000)"

definition fails :: "'e + 'a \<Rightarrow> bool" where
  "fails r = (case r of Inl _ \<Rightarrow> True | Inr _ \<Rightarrow> False)"

section \<open>The resilience score (\<open>analytics_service.py\<close>)\<close>

text \<open>
  \<open>_avg_headroom\<close> reads the column \<open>utilization_percent\<close> of a utilisation table; the
  table is given by that column, and the empty list is the empty table (a table built
  from no rows has no columns). The result is the pair of the average utilisation and
  the headroom, both \<open>None\<close> for an empty table.
\<close>

definition avg_headroom :: "real list \<Rightarrow> real option \<times> real option" where
  "avg_headroom df =
     (if df = [] then (None, None)
      else
        (let avg_util = sum_list df / real (length df);
             headroom = max 0 (100 - avg_util)
         in (Some avg_util, Some headroom)))"

definition resilience_components :: "real \<Rightarrow> real list \<Rightarrow> real list \<Rightarrow> real list \<Rightarrow> (string \<times> real option) list" where
  "resilience_components service_level production_utilization storage_utilization
       transport_utilization =
     [(''service_level'', Some service_level),
      (''production_headroom'', snd (avg_headroom production_utilization)),
      (''storage_headroom'', snd (avg_headroom storage_utilization)),
      (''transport_headroom'', snd (avg_headroom transport_utilization))]"

definition resilience_score :: "real \<Rightarrow> real list \<Rightarrow> real list \<Rightarrow> real list \<Rightarrow> real" where
  "resilience_score service_level production_utilization storage_utilization
       transport_utilization =
     (let component_values =
            [v. (_, Some v) \<leftarrow> resilience_components service_level production_utilization
                                storage_utilization transport_utilization]
      in if component_values \<noteq> []
         then sum_list component_values / real (length component_values)
         else 0)"

definition classification :: "real \<Rightarrow> string" where
  "classification score =
     (if score \<ge> 80 then ''Resilient''
      else if score \<ge> 60 then ''Balanced''
      else ''At Risk'')"

text \<open>
  The score as the specification words it: the unweighted average of the service level
  and of 100 minus the average utilisation of production, storage and transport.
\<close>

definition spec_resilience_score :: "real \<Rightarrow> real list \<Rightarrow> real list \<Rightarrow> real list \<Rightarrow> real" where
  "spec_resilience_score service_level production_utilization storage_utilization
       transport_utilization =
     (service_level
        + (100 - sum_list production_utilization / real (length production_utilization))
        + (100 - sum_list storage_utilization / real (length storage_utilization))
        + (100 - sum_list transport_utilization / real (length transport_utilization))) / 4"

definition example_scenarios :: "DemandScenario list" where
  "example_scenarios =
     [\<lparr> name = ''Low'', probability = 0.2, demand_multiplier = 0.9 \<rparr>,
      \<lparr> name = ''Normal'', probability = 0.6, demand_multiplier = 1 \<rparr>,
      \<lparr> name = ''High'', probability = 0.2, demand_multiplier = 1.1 \<rparr>]"

section \<open>The result parsers\<close>

text \<open>
  A row of a result table is the Python dictionary the parser appends: its columns in
  order, each with a string, a float or an integer.
\<close>

datatype cell = Str string | Num real | IntNum int

type_synonym row = "(string \<times> cell) list"

text \<open>
  \<open>_safe_value\<close>: the value of a variable, and \<open>0.0\<close> when \<open>pyo.value\<close> raises
  because the variable has none.
\<close>

definition safe_value :: "real option \<Rightarrow> real" where
  "safe_value v = (case v of Some x \<Rightarrow> x | None \<Rightarrow> 0)"

text \<open>\<open>plant_names.get(p, p)\<close>\<close>

definition plant_label :: "(plant_id \<rightharpoonup> string) \<Rightarrow> plant_id \<Rightarrow> string" where
  "plant_label names p = (case names p of Some n \<Rightarrow> n | None \<Rightarrow> p)"

text \<open>Python's \<open>round\<close> to an integer: to the nearest, a tie to the even one.\<close>

definition py_round :: "real \<Rightarrow> int" where
  "py_round x =
     (let f = \<lfloor>x\<rfloor>; d = x - of_int f
      in if d < 1/2 then f else if d > 1/2 then f + 1 else if even f then f else f + 1)"

record OptimizationResults =
  production_df :: "row list"
  transport_df :: "row list"
  inventory_df :: "row list"
  cost_breakdown :: "(string \<times> real) list"
  objective_value :: real

subsection \<open>The deterministic parser (\<open>optimization/result_parser.py\<close>)\<close>

definition prod_rows :: "model \<Rightarrow> (plant_id \<rightharpoonup> string) \<Rightarrow> real option vals \<Rightarrow> row list" where
  "prod_rows m names sol =
     [[(''plant_id'', Str p), (''plant'', Str (plant_label names p)), (''month'', Str t),
       (''production'', Num (safe_value (Prod sol p t)))].
      p \<leftarrow> P m, t \<leftarrow> T m, safe_value (Prod sol p t) \<noteq> 0]"

definition ship_rows :: "model \<Rightarrow> (plant_id \<rightharpoonup> string) \<Rightarrow> real option vals \<Rightarrow> row list" where
  "ship_rows m names sol =
     [[(''from_id'', Str i), (''from'', Str (plant_label names i)),
       (''to_id'', Str j), (''to'', Str (plant_label names j)),
       (''mode'', Str k), (''month'', Str t),
       (''shipment'', Num (safe_value (Ship sol (i, j, k) t))),
       (''trips'', IntNum (py_round (safe_value (Trips sol (i, j, k) t))))].
      (i, j, k) \<leftarrow> R m, t \<leftarrow> T m,
      safe_value (Ship sol (i, j, k) t) \<noteq> 0 \<or> safe_value (Trips sol (i, j, k) t) \<noteq> 0]"

definition inv_rows :: "model \<Rightarrow> (plant_id \<rightharpoonup> string) \<Rightarrow> real option vals \<Rightarrow> row list" where
  "inv_rows m names sol =
     [[(''plant_id'', Str p), (''plant'', Str (plant_label names p)), (''month'', Str t),
       (''inventory'', Num (safe_value (Inv sol p t)))].
      p \<leftarrow> P m, t \<leftarrow> T m]"

text \<open>
  \<open>_safe_value(model.TotalCost)\<close>: the objective expression at the loaded values.
  \<open>pyo.value\<close> raises when a variable that occurs in the expression has no value,
  whatever its coefficient, and the parser then takes \<open>0.0\<close>; \<open>has_values\<close> says that
  every variable of the model's objective has a value. A variable that the objective
  does not mention need not have one.
\<close>

definition has_values :: "model \<Rightarrow> real option vals \<Rightarrow> bool" where
  "has_values m sol = list_all (\<lambda>x. var_value sol x \<noteq> None) (TotalCost_vars m)"

definition loaded :: "real option vals \<Rightarrow> real vals" where
  "loaded sol =
     \<lparr> Prod = (\<lambda>p t. safe_value (Prod sol p t)),
       Ship = (\<lambda>r t. safe_value (Ship sol r t)),
       Trips = (\<lambda>r t. safe_value (Trips sol r t)),
       Use = (\<lambda>r t. safe_value (Use sol r t)),
       Inv = (\<lambda>p t. safe_value (Inv sol p t)),
       DemandSlack = (\<lambda>p t. safe_value (DemandSlack sol p t)) \<rparr>"

definition value_TotalCost :: "model \<Rightarrow> real option vals \<Rightarrow> real option" where
  "value_TotalCost m sol = (if has_values m sol then Some (TotalCost m (loaded sol)) else None)"

definition parse_results :: "model \<Rightarrow> (plant_id \<rightharpoonup> string) \<Rightarrow> real option vals \<Rightarrow> OptimizationResults" where
  "parse_results m names sol =
     (let prod_cost = sum_list [safe_value (Prod sol p t) * ProdCost m p. p \<leftarrow> P m, t \<leftarrow> T m];
          trans_cost = sum_list [safe_value (Trips sol r t) * RouteCost m r. r \<leftarrow> R m, t \<leftarrow> T m];
          hold_cost = sum_list [safe_value (Inv sol p t) * HoldCost m p. p \<leftarrow> P m, t \<leftarrow> T m];
          obj = safe_value (value_TotalCost m sol)
      in \<lparr> production_df = prod_rows m names sol,
           transport_df = ship_rows m names sol,
           inventory_df = inv_rows m names sol,
           cost_breakdown =
             [(''production'', prod_cost), (''transport'', trans_cost), (''holding'', hold_cost)],
           objective_value = obj \<rparr>)"

subsection \<open>The uncertainty parser (\<open>uncertainty/result_parser.py\<close>): the inventory table\<close>

definition uncertainty_inv_rows :: "smodel \<Rightarrow> (plant_id \<rightharpoonup> string) \<Rightarrow> real option svals \<Rightarrow> row list" where
  "uncertainty_inv_rows m names sol =
     [[(''scenario'', Str s), (''plant_id'', Str p), (''plant'', Str (plant_label names p)),
       (''month'', Str t), (''inventory'', Num (safe_value (InvS sol s p t)))].
      s \<leftarrow> S m, p \<leftarrow> P m, t \<leftarrow> T m]"

text \<open>Loaded values for the example model: everything is zero but one tiny production.\<close>

definition example_solution :: "real option vals" where
  "example_solution =
     \<lparr> Prod = (\<lambda>p _. Some (if p = ''A'' then 1 / 1000000000000 else 0)),
       Ship = (\<lambda>_ _. Some 0), Trips = (\<lambda>_ _. Some 0),
       Use = (\<lambda>_ _. Some 0), Inv = (\<lambda>_ _. Some 0), DemandSlack = (\<lambda>_ _. None) \<rparr>"

text \<open>
  Loaded values for a model with the feasibility-repair objective: one trip that carries
  5 units, and a demand slack of 2 at each plant.
\<close>

definition example_feasible_solution :: "real option vals" where
  "example_feasible_solution =
     \<lparr> Prod = (\<lambda>_ _. Some 0), Ship = (\<lambda>_ _. Some 5), Trips = (\<lambda>_ _. Some 1),
       Use = (\<lambda>_ _. Some 1), Inv = (\<lambda>_ _. Some 0), DemandSlack = (\<lambda>_ _. Some 2) \<rparr>"

text \<open>Loaded values in which the shipments and the mode selections have no value.\<close>

definition example_partial_solution :: "real option vals" where
  "example_partial_solution =
     \<lparr> Prod = (\<lambda>_ _. Some 10), Ship = (\<lambda>_ _. None), Trips = (\<lambda>_ _. Some 1),
       Use = (\<lambda>_ _. None), Inv = (\<lambda>_ _. Some 0), DemandSlack = (\<lambda>_ _. None) \<rparr>"

definition example_ssolution :: "real option svals" where
  "example_ssolution =
     \<lparr> Prod = (\<lambda>_ _. Some 0), Ship = (\<lambda>_ _. Some 0), Trips = (\<lambda>_ _. Some 0),
       UseMode = (\<lambda>_ _. Some 0), InvS = (\<lambda>_ _ _. Some 0) \<rparr>"

section \<open>The planning data set assembler (\<open>data_loader.py\<close>)\<close>

text \<open>
  The master data are lists of documents. A field that the assembler reads with a
  default (\<open>p.get("storage_capacity", 0.0)\<close>) holds its number here, so the errors
  "must be a number" cannot arise; the two fields that it tests against \<open>None\<close> are
  optional. The four reads of the data base are arguments of the assembler.
\<close>

record plant_doc =
  p_id :: string
  p_name :: string
  p_plant_type :: string
  p_storage_capacity :: real
  p_initial_inventory :: real
  p_safety_stock :: real
  p_production_capacity :: "real option"
  p_production_cost :: "real option"

record policy_doc =
  pol_plant_id :: string
  pol_safety_stock :: real
  pol_max_inventory :: real
  pol_holding_cost_per_month :: real

record demand_doc =
  d_demand_type :: string
  d_month :: string
  d_plant_id :: string
  d_demand_quantity :: real

record route_doc =
  r_from_plant_id :: string
  r_to_plant_id :: string
  r_transport_mode :: string
  r_cost_per_trip :: real
  r_capacity_per_trip :: real
  r_sbq :: real
  r_is_enabled :: bool

text \<open>The \<open>ValueError\<close>s of the assembler, with the entities their messages name.\<close>

datatype validation_error =
    SelectAtLeastOneMonth
  | NoPlantsFound
  | MissingProductionCapacity "string option"
  | MissingProductionCost "string option"
  | DemandNegative
  | NoRoutesFound
  | TransportNegative
  | SBQExceedsCapacity "string option" "string option" string
  | DemandTooHigh month real real real
  | InitialExceedsMax "string option"
  | NoInboundRoute "string option" month

text \<open>
  A dictionary comprehension \<open>{k: v for ...}\<close>: a later entry replaces an earlier one
  with the same key.
\<close>

definition dict_of :: "('k \<times> 'v) list \<Rightarrow> ('k \<rightharpoonup> 'v)" where
  "dict_of kvs = map_of (rev kvs)"

text \<open>
  \<open>d[k]\<close> for a key that was stored before. The assembler fills every table for every
  plant id, the demand for every plant id and month and the route tables for every kept
  route before it reads them, so these reads do not raise \<open>KeyError\<close>.
\<close>

definition item :: "('k \<rightharpoonup> 'v) \<Rightarrow> 'k \<Rightarrow> 'v" where
  "item d k = the (d k)"

text \<open>The loop that reads the production capacity and cost of the clinker plants.\<close>

fun production_loop ::
  "(plant_id \<rightharpoonup> string) \<Rightarrow> (plant_id \<rightharpoonup> string)
     \<Rightarrow> (plant_id \<rightharpoonup> real) \<times> (plant_id \<rightharpoonup> real) \<Rightarrow> plant_doc list
     \<Rightarrow> validation_error + (plant_id \<rightharpoonup> real) \<times> (plant_id \<rightharpoonup> real)" where
  "production_loop names types (cap, cost) [] = Inr (cap, cost)"
| "production_loop names types (cap, cost) (p # ps) =
     (if types (p_id p) = Some ''Clinker Plant''
      then
        (case p_production_capacity p of
           None \<Rightarrow> Inl (MissingProductionCapacity (names (p_id p)))
         | Some c \<Rightarrow>
             (case p_production_cost p of
                None \<Rightarrow> Inl (MissingProductionCost (names (p_id p)))
              | Some k \<Rightarrow>
                  production_loop names types (cap(p_id p \<mapsto> c), cost(p_id p \<mapsto> k)) ps))
      else production_loop names types (cap, cost) ps)"

text \<open>The loop over the demand documents: \<open>demand[(plant_id_str, month)] += qty\<close>.\<close>

fun demand_docs_loop ::
  "string \<Rightarrow> month list \<Rightarrow> plant_id list \<Rightarrow> ((plant_id \<times> month) \<rightharpoonup> real) \<Rightarrow> demand_doc list
     \<Rightarrow> validation_error + ((plant_id \<times> month) \<rightharpoonup> real)" where
  "demand_docs_loop demand_type_filter ms pids dem [] = Inr dem"
| "demand_docs_loop demand_type_filter ms pids dem (d # ds) =
     (if d_demand_type d \<noteq> demand_type_filter
      then demand_docs_loop demand_type_filter ms pids dem ds
      else if strip (d_month d) \<notin> set ms
      then demand_docs_loop demand_type_filter ms pids dem ds
      else if d_plant_id d \<notin> set pids
      then demand_docs_loop demand_type_filter ms pids dem ds
      else if d_demand_quantity d < 0 then Inl DemandNegative
      else demand_docs_loop demand_type_filter ms pids
             (dem((d_plant_id d, strip (d_month d))
                    \<mapsto> item dem (d_plant_id d, strip (d_month d)) + d_demand_quantity d))
             ds)"

text \<open>
  The loop over the route documents. A document whose origin or destination is not a
  plant id is passed over (\<open>continue\<close>) before any of its numbers is read.
\<close>

record route_tables =
  rt_routes :: "route list"
  rt_cost_per_trip :: "route \<rightharpoonup> real"
  rt_capacity_per_trip :: "route \<rightharpoonup> real"
  rt_sbq :: "route \<rightharpoonup> real"
  rt_enabled :: "route \<rightharpoonup> bool"

definition no_routes :: route_tables where
  "no_routes =
     \<lparr> rt_routes = [], rt_cost_per_trip = Map.empty, rt_capacity_per_trip = Map.empty,
       rt_sbq = Map.empty, rt_enabled = Map.empty \<rparr>"

fun routes_loop ::
  "plant_id list \<Rightarrow> (plant_id \<rightharpoonup> string) \<Rightarrow> route_tables \<Rightarrow> route_doc list
     \<Rightarrow> validation_error + route_tables" where
  "routes_loop pids names rt [] = Inr rt"
| "routes_loop pids names rt (r # rs) =
     (if r_from_plant_id r \<notin> set pids \<or> r_to_plant_id r \<notin> set pids
      then routes_loop pids names rt rs
      else
        (let key = (r_from_plant_id r, r_to_plant_id r, strip (r_transport_mode r));
             rt' = \<lparr> rt_routes = rt_routes rt @ [key],
                     rt_cost_per_trip = (rt_cost_per_trip rt)(key \<mapsto> r_cost_per_trip r),
                     rt_capacity_per_trip = (rt_capacity_per_trip rt)(key \<mapsto> r_capacity_per_trip r),
                     rt_sbq = (rt_sbq rt)(key \<mapsto> r_sbq r),
                     rt_enabled = (rt_enabled rt)(key \<mapsto> r_is_enabled r) \<rparr>
         in if r_capacity_per_trip r < 0 \<or> r_cost_per_trip r < 0 \<or> r_sbq r < 0
            then Inl TransportNegative
            else if r_sbq r > r_capacity_per_trip r
            then Inl (SBQExceedsCapacity (names (r_from_plant_id r)) (names (r_to_plant_id r))
                        (strip (r_transport_mode r)))
            else routes_loop pids names rt' rs))"

text \<open>The three feasibility checks on the assembled data.\<close>

definition has_inflow :: "OptimizationData \<Rightarrow> plant_id \<Rightarrow> bool" where
  "has_inflow data pid =
     (case fold (\<lambda>(i, j, mode) h. if item (route_enabled data) (i, j, mode) then h(j \<mapsto> True) else h)
             (routes data) (dict_of [(pid, False). pid \<leftarrow> plant_ids data]) pid of
        Some b \<Rightarrow> b
      | None \<Rightarrow> False)"

definition feasibility_checks :: "OptimizationData \<Rightarrow> validation_error + OptimizationData" where
  "feasibility_checks data =
     (let total_demand = (\<lambda>m. sum_list [item (demand data) (pid, m). pid \<leftarrow> plant_ids data]);
          total_initial = sum_list [item (initial_inventory data) pid. pid \<leftarrow> plant_ids data];
          total_prod_cap = sum_list [item (production_capacity data) pid. pid \<leftarrow> clinker_plants data]
      in case find (\<lambda>m. total_demand m > total_initial + total_prod_cap) (months data) of
           Some m \<Rightarrow> Inl (DemandTooHigh m (total_demand m) total_initial total_prod_cap)
         | None \<Rightarrow>
             (case find (\<lambda>pid. item (initial_inventory data) pid > item (max_inventory data) pid)
                     (plant_ids data) of
                Some pid \<Rightarrow> Inl (InitialExceedsMax (plant_names data pid))
              | None \<Rightarrow>
                  (case find (\<lambda>(pid, m). item (demand data) (pid, m) > 0
                                   \<and> pid \<notin> set (clinker_plants data) \<and> \<not> has_inflow data pid)
                          [(pid, m). pid \<leftarrow> plant_ids data, m \<leftarrow> months data] of
                     Some (pid, m) \<Rightarrow> Inl (NoInboundRoute (plant_names data pid) m)
                   | None \<Rightarrow> Inr data)))"

definition assemble_optimization_data ::
  "string list \<Rightarrow> string \<Rightarrow> plant_doc list \<Rightarrow> policy_doc list \<Rightarrow> demand_doc list
     \<Rightarrow> route_doc list \<Rightarrow> validation_error + OptimizationData" where
  "assemble_optimization_data selected_months demand_type_filter plants policies all_demands
       all_routes =
     (let ms = [strip m. m \<leftarrow> selected_months, strip m \<noteq> []]
      in if ms = [] then Inl SelectAtLeastOneMonth
         else if plants = [] then Inl NoPlantsFound
         else
           (let pids = map p_id plants;
                names = dict_of [(p_id p, p_name p). p \<leftarrow> plants];
                types = dict_of [(p_id p, p_plant_type p). p \<leftarrow> plants];
                clinker = [pid \<leftarrow> pids. types pid = Some ''Clinker Plant''];
                storage = dict_of [(p_id p, p_storage_capacity p). p \<leftarrow> plants];
                initial = dict_of [(p_id p, p_initial_inventory p). p \<leftarrow> plants];
                policy_by_plant_id = dict_of [(pol_plant_id pol, pol). pol \<leftarrow> policies];
                safety = dict_of [(p_id p, case policy_by_plant_id (p_id p) of
                                              None \<Rightarrow> p_safety_stock p
                                            | Some pol \<Rightarrow> pol_safety_stock pol). p \<leftarrow> plants];
                max_inv = dict_of [(p_id p, case policy_by_plant_id (p_id p) of
                                               None \<Rightarrow> item storage (p_id p)
                                             | Some pol \<Rightarrow> pol_max_inventory pol). p \<leftarrow> plants];
                holding = dict_of [(p_id p, case policy_by_plant_id (p_id p) of
                                               None \<Rightarrow> 0
                                             | Some pol \<Rightarrow> pol_holding_cost_per_month pol).
                                   p \<leftarrow> plants];
                zero = dict_of [(pid, 0). pid \<leftarrow> pids]
            in case production_loop names types (zero, zero) plants of
                 Inl e \<Rightarrow> Inl e
               | Inr (prod_cap, prod_cost) \<Rightarrow>
                   (case demand_docs_loop demand_type_filter ms pids
                           (dict_of [((pid, m), 0). pid \<leftarrow> pids, m \<leftarrow> ms]) all_demands of
                      Inl e \<Rightarrow> Inl e
                    | Inr dem \<Rightarrow>
                        if all_routes = [] then Inl NoRoutesFound
                        else
                          (case routes_loop pids names no_routes all_routes of
                             Inl e \<Rightarrow> Inl e
                           | Inr rt \<Rightarrow>
                               feasibility_checks
                                 \<lparr> months = ms, plant_ids = pids, plant_names = names,
                                   plant_type = types, clinker_plants = clinker,
                                   storage_capacity = storage, initial_inventory = initial,
                                   safety_stock = safety, max_inventory = max_inv,
                                   holding_cost = holding,
                                   production_capacity = prod_cap, production_cost = prod_cost,
                                   demand = dem, routes = rt_routes rt,
                                   transport_cost_per_trip = rt_cost_per_trip rt,
                                   transport_capacity_per_trip = rt_capacity_per_trip rt,
                                   transport_sbq = rt_sbq rt,
                                   route_enabled = rt_enabled rt \<rparr>))))"

text \<open>Master data for an example: two active plants and two routes, the second of which
  leaves a plant that is not among them and carries a negative cost and an SBQ above its
  capacity.\<close>

definition example_plants :: "plant_doc list" where
  "example_plants =
     [\<lparr> p_id = ''A'', p_name = ''Alpha'', p_plant_type = ''Clinker Plant'',
        p_storage_capacity = 500, p_initial_inventory = 0, p_safety_stock = 0,
        p_production_capacity = Some 100, p_production_cost = Some 10 \<rparr>,
      \<lparr> p_id = ''B'', p_name = ''Beta'', p_plant_type = ''Grinding Unit'',
        p_storage_capacity = 500, p_initial_inventory = 0, p_safety_stock = 0,
        p_production_capacity = None, p_production_cost = None \<rparr>]"

definition example_demands :: "demand_doc list" where
  "example_demands =
     [\<lparr> d_demand_type = ''Fixed'', d_month = ''2025-01'', d_plant_id = ''B'',
        d_demand_quantity = 80 \<rparr>]"

definition good_route :: route_doc where
  "good_route =
     \<lparr> r_from_plant_id = ''A'', r_to_plant_id = ''B'', r_transport_mode = ''Road'',
       r_cost_per_trip = 20, r_capacity_per_trip = 50, r_sbq = 10, r_is_enabled = True \<rparr>"

definition stray_route :: route_doc where
  "stray_route =
     \<lparr> r_from_plant_id = ''Z'', r_to_plant_id = ''B'', r_transport_mode = ''Rail'',
       r_cost_per_trip = - 5, r_capacity_per_trip = 10, r_sbq = 99, r_is_enabled = True \<rparr>"

section \<open>Auxiliary facts\<close>

lemma sum_list_nested_const_mult:
  "sum_list [c * f x y. x \<leftarrow> xs, y \<leftarrow> ys] = (c::real) * sum_list [f x y. x \<leftarrow> xs, y \<leftarrow> ys]"
  by (induction xs) (simp_all add: sum_list_const_mult algebra_simps)

lemma length_nested:
  "length [f x y. x \<leftarrow> xs, y \<leftarrow> ys] = length xs * length ys"
  by (induction xs) simp_all

lemma length_nested3:
  "length [f x y z. x \<leftarrow> xs, y \<leftarrow> ys, z \<leftarrow> zs] = length xs * length ys * length zs"
  by (induction xs) (simp_all add: length_nested algebra_simps)

lemma add_objective_simps:
  "P (add_objective m) = P m" "T (add_objective m) = T m" "R (add_objective m) = R m"
  "ProdCost (add_objective m) = ProdCost m" "RouteCost (add_objective m) = RouteCost m"
  "HoldCost (add_objective m) = HoldCost m"
  "TotalCost (add_objective m) = total_cost_rule m"
  by (simp_all add: add_objective_def)

lemma strip_examples:
  "strip [] = []" "strip ''Low'' = ''Low''" "strip ''Normal'' = ''Normal''"
  "strip ''High'' = ''High''" "strip ''2025-01'' = ''2025-01''" "strip ''Road'' = ''Road''"
  "strip ''Rail'' = ''Rail''"
  by code_simp+

lemma lower_examples:
  "lower ''invalid'' = ''invalid''" "lower ''not_available'' = ''not_available''"
  "lower ''error'' = ''error''" "lower (strip '' CBC '') = ''cbc''"
  "lower (strip ''cplex'') = ''cplex''"
  by code_simp+

section \<open>The objective of the feasibility-repair variant\<close>

text \<open>
  Claim C1, as the specification states it: the objective of the feasibility-repair
  variant is the deterministic objective (production times unit cost, trips times cost
  per trip, inventory times holding cost) plus the penalty times the sum of all demand
  slack. It fails: the transport term of \<open>add_feasible_objective\<close> multiplies the cost
  per trip by the shipped quantity, not by the number of trips. With one trip that
  carries 5 units at 20 per trip and a slack of 2 at each of two plants, the code's
  objective is 40100 and the stated one 40020.
\<close>

theorem feasible_objective_counterexample:
  "TotalCost (add_feasible_objective example_model) example_vals = 40100
   \<and> spec_feasible_objective example_model example_vals = 40020"
  by (simp add: add_feasible_objective_def feasible_total_cost_def spec_feasible_objective_def
      add_objective_def total_cost_rule_def example_model_def example_vals_def)

text \<open>
  Claim C1, amended: the objective of the feasibility-repair variant is the sum over
  plants and months of production times unit cost, plus the sum over routes and months of
  the shipped quantity times the route's cost per trip, plus the sum over plants and
  months of inventory times holding cost, plus the penalty (10000 per unit) times the sum
  of all demand slack; that is the deterministic objective read with every trip count
  replaced by the shipped quantity, plus the penalty term.
\<close>

theorem feasible_objective_amended:
  "TotalCost (add_feasible_objective m) v =
     sum_list [Prod v p t * ProdCost m p. p \<leftarrow> P m, t \<leftarrow> T m]
       + sum_list [Ship v r t * RouteCost m r. r \<leftarrow> R m, t \<leftarrow> T m]
       + sum_list [Inv v p t * HoldCost m p. p \<leftarrow> P m, t \<leftarrow> T m]
       + DemandPenalty m * sum_list [DemandSlack v p t. p \<leftarrow> P m, t \<leftarrow> T m]
   \<and> TotalCost (add_feasible_objective m) v =
       TotalCost (add_objective m) (v\<lparr>Trips := Ship v\<rparr>)
         + DemandPenalty m * sum_list [DemandSlack v p t. p \<leftarrow> P m, t \<leftarrow> T m]
   \<and> DemandPenalty (add_feasible_constraints_DemandPenalty m) = 10000"
  by (simp add: add_feasible_objective_def feasible_total_cost_def add_objective_def
      total_cost_rule_def add_feasible_constraints_DemandPenalty_def
      sum_list_nested_const_mult mult.commute)

section \<open>The tolerance band of the feasibility-repair variant\<close>

text \<open>
  Claim C2, as the specification states it: every relaxed constraint family (safety
  stock, maximum inventory, minimum batch, aggregate transport limits) is loosened by the
  same band, lower bounds scaled by 0.8 and upper bounds by 1.2. It fails for the
  minimum batch: with one trip and an SBQ of 10, a shipment of 5 satisfies the rule of the
  code, which halves the bound, and violates the bound scaled by 0.8.
\<close>

theorem feasible_band_counterexample:
  "feasible_sbq_rule example_model example_vals (''A'', ''B'', ''Road'') ''2025-01''
     \<noteq> tolerance_band (sbq_rule example_model example_vals (''A'', ''B'', ''Road'') ''2025-01'')
   \<and> holds (feasible_sbq_rule example_model example_vals (''A'', ''B'', ''Road'') ''2025-01'')
   \<and> \<not> holds (tolerance_band
                (sbq_rule example_model example_vals (''A'', ''B'', ''Road'') ''2025-01''))"
  by (simp add: feasible_sbq_rule_def sbq_rule_def example_model_def example_vals_def
      add_objective_def)

lemma feasible_safety_stock_band:
  "feasible_safety_stock_rule m v p t = tolerance_band (safety_stock_rule m v p t)"
  by (simp add: feasible_safety_stock_rule_def safety_stock_rule_def)

lemma feasible_max_inventory_band:
  "feasible_max_inventory_rule m v p t = tolerance_band (max_inventory_rule m v p t)"
  by (simp add: feasible_max_inventory_rule_def max_inventory_rule_def)

lemma feasible_limit_lower_band:
  "feasible_transport_code_limit_lower_rule m lims v i k t
     = tolerance_band (transport_code_limit_lower_rule m lims v i k t)"
  by (simp add: feasible_transport_code_limit_lower_rule_def transport_code_limit_lower_rule_def
      split: option.splits)

lemma feasible_limit_upper_band:
  "feasible_transport_code_limit_upper_rule m lims v i k t
     = tolerance_band (transport_code_limit_upper_rule m lims v i k t)"
  by (simp add: feasible_transport_code_limit_upper_rule_def transport_code_limit_upper_rule_def
      split: option.splits)

lemma feasible_sbq_half:
  "feasible_sbq_rule m v r t = (if RouteSBQ m r > 0 then half_band (sbq_rule m v r t) else Skip)"
  by (simp add: feasible_sbq_rule_def sbq_rule_def)

text \<open>
  Claim C2, amended: the safety-stock lower bound and the lower aggregate transport limit
  are scaled by 0.8, the maximum-inventory upper bound and the upper aggregate transport
  limit by 1.2; the minimum-batch lower bound is scaled by 0.5, and is imposed only on
  routes whose SBQ is positive.
\<close>

theorem feasible_band_amended:
  "add_feasible_constraints_SafetyStock m v = map tolerance_band (add_constraints_SafetyStock m v)
   \<and> add_feasible_constraints_MaxInventory m v
        = map tolerance_band (add_constraints_MaxInventory m v)
   \<and> add_feasible_constraints_TransportCodeLimitLower m v
        = map tolerance_band (add_constraints_TransportCodeLimitLower m v)
   \<and> add_feasible_constraints_TransportCodeLimitUpper m v
        = map tolerance_band (add_constraints_TransportCodeLimitUpper m v)
   \<and> add_feasible_constraints_SBQ m v
        = [if RouteSBQ m r > 0 then half_band (sbq_rule m v r t) else Skip. r \<leftarrow> R m, t \<leftarrow> T m]"
proof -
  have a: "add_feasible_constraints_SafetyStock m v
             = map tolerance_band (add_constraints_SafetyStock m v)"
    by (simp add: add_feasible_constraints_SafetyStock_def add_constraints_SafetyStock_def
        feasible_safety_stock_band map_concat comp_def)
  have b: "add_feasible_constraints_MaxInventory m v
             = map tolerance_band (add_constraints_MaxInventory m v)"
    by (simp add: add_feasible_constraints_MaxInventory_def add_constraints_MaxInventory_def
        feasible_max_inventory_band map_concat comp_def)
  have c: "add_feasible_constraints_TransportCodeLimitLower m v
             = map tolerance_band (add_constraints_TransportCodeLimitLower m v)"
    by (simp add: add_feasible_constraints_TransportCodeLimitLower_def
        add_constraints_TransportCodeLimitLower_def feasible_limit_lower_band map_concat comp_def
        split_def split: option.splits)
  have d: "add_feasible_constraints_TransportCodeLimitUpper m v
             = map tolerance_band (add_constraints_TransportCodeLimitUpper m v)"
    by (simp add: add_feasible_constraints_TransportCodeLimitUpper_def
        add_constraints_TransportCodeLimitUpper_def feasible_limit_upper_band map_concat comp_def
        split_def split: option.splits)
  have e: "add_feasible_constraints_SBQ m v
             = [if RouteSBQ m r > 0 then half_band (sbq_rule m v r t) else Skip.
                r \<leftarrow> R m, t \<leftarrow> T m]"
    by (simp add: add_feasible_constraints_SBQ_def feasible_sbq_half)
  from a b c d e show ?thesis by blast
qed

section \<open>The variables and the objective of the stochastic model\<close>

lemma hold_cost_by_scenario:
  "sum_list [(pr s::real) * h p * f s p t. s \<leftarrow> ss, p \<leftarrow> ps, t \<leftarrow> ts]
     = sum_list [pr s * sum_list [h p * f s p t. p \<leftarrow> ps, t \<leftarrow> ts]. s \<leftarrow> ss]"
proof (induction ss)
  case Nil
  show ?case by simp
next
  case (Cons s ss)
  have "sum_list [pr s * h p * f s p t. p \<leftarrow> ps, t \<leftarrow> ts]
          = pr s * sum_list [h p * f s p t. p \<leftarrow> ps, t \<leftarrow> ts]"
    using sum_list_nested_const_mult [of "pr s" "\<lambda>p t. h p * f s p t" ts ps]
    by (simp add: mult.assoc)
  with Cons show ?case by simp
qed

lemma expected_cost_obj_eq:
  "expected_cost_obj mm v =
     sum_list [ProdCost mm p * Prod v p t. p \<leftarrow> P mm, t \<leftarrow> T mm]
       + sum_list [CostPerTrip mm r * Trips v r t. r \<leftarrow> R mm, t \<leftarrow> T mm]
       + sum_list [Prob mm s * sum_list [HoldCost mm p * InvS v s p t. p \<leftarrow> P mm, t \<leftarrow> T mm].
                   s \<leftarrow> S mm]"
  unfolding expected_cost_obj_def Let_def hold_cost_by_scenario ..

lemma weighted_sum_split:
  "sum_list [pr s * (c + h s). s \<leftarrow> ss]
     = sum_list (map pr ss) * (c::real) + sum_list [pr s * h s. s \<leftarrow> ss]"
  by (induction ss) (simp_all add: algebra_simps)

lemma spec_expected_cost_eq:
  "sum_list (map (Prob mm) (S mm)) = 1 \<Longrightarrow> spec_expected_cost mm v = expected_cost_obj mm v"
  unfolding spec_expected_cost_def expected_cost_obj_eq weighted_sum_split by simp

lemma build_stochastic_model_Inr:
  assumes "build_stochastic_model data scen = Inr mm"
  shows "P mm = ordered_set (plant_ids data)"
    and "T mm = ordered_set (months data)"
    and "R mm = ordered_set (routes data)"
    and "S mm = ordered_set (scenario_names scen)"
    and "ProdCost mm = Param (production_cost data)"
    and "HoldCost mm = Param (holding_cost data)"
    and "CostPerTrip mm = Param (transport_cost_per_trip data)"
    and "Prob mm = Param (map_of (scenario_probability scen))"
    and "Objective mm = expected_cost_obj mm"
    and "variables mm =
     [(''Prod'', \<lparr> var_index = [[p, t]. p \<leftarrow> ordered_set (plant_ids data),
                                          t \<leftarrow> ordered_set (months data)],
                 var_within = NonNegativeReals \<rparr>),
      (''Ship'', \<lparr> var_index = [[i, j, k, t]. (i, j, k) \<leftarrow> ordered_set (routes data),
                                                t \<leftarrow> ordered_set (months data)],
                 var_within = NonNegativeReals \<rparr>),
      (''Trips'', \<lparr> var_index = [[i, j, k, t]. (i, j, k) \<leftarrow> ordered_set (routes data),
                                                 t \<leftarrow> ordered_set (months data)],
                  var_within = NonNegativeIntegers \<rparr>),
      (''UseMode'', \<lparr> var_index = [[i, j, k, t]. (i, j, k) \<leftarrow> ordered_set (routes data),
                                                   t \<leftarrow> ordered_set (months data)],
                    var_within = Binary \<rparr>),
      (''Inv'', \<lparr> var_index = [[s, p, t]. s \<leftarrow> ordered_set (scenario_names scen),
                                            p \<leftarrow> ordered_set (plant_ids data),
                                            t \<leftarrow> ordered_set (months data)],
                var_within = NonNegativeReals \<rparr>)]"
proof -
  let ?mm0 =
    "\<lparr> P = ordered_set (plant_ids data), T = ordered_set (months data),
       R = ordered_set (routes data), CL = ordered_set (clinker_plants data),
       IJ = sort (remdups [(i, j). (i, j, _) \<leftarrow> routes data]),
       MaxInv = Param (max_inventory data),
       HoldCost = Param (holding_cost data),
       ProdCap = Param (production_capacity data),
       ProdCost = Param (production_cost data),
       RouteEnabled = Param (route_enabled data),
       S = ordered_set (scenario_names scen),
       StorageCap = Param (storage_capacity data),
       InitialInv = Param (initial_inventory data),
       SafetyStock = Param (safety_stock data),
       CostPerTrip = Param (transport_cost_per_trip data),
       CapPerTrip = Param (transport_capacity_per_trip data),
       SBQ = Param (transport_sbq data),
       DemandS = demand_init scen,
       Prob = Param (map_of (scenario_probability scen)),
       variables =
         [(''Prod'', \<lparr> var_index = [[p, t]. p \<leftarrow> ordered_set (plant_ids data),
                                              t \<leftarrow> ordered_set (months data)],
                     var_within = NonNegativeReals \<rparr>),
          (''Ship'', \<lparr> var_index = [[i, j, k, t]. (i, j, k) \<leftarrow> ordered_set (routes data),
                                                    t \<leftarrow> ordered_set (months data)],
                     var_within = NonNegativeReals \<rparr>),
          (''Trips'', \<lparr> var_index = [[i, j, k, t]. (i, j, k) \<leftarrow> ordered_set (routes data),
                                                     t \<leftarrow> ordered_set (months data)],
                      var_within = NonNegativeIntegers \<rparr>),
          (''UseMode'', \<lparr> var_index = [[i, j, k, t]. (i, j, k) \<leftarrow> ordered_set (routes data),
                                                       t \<leftarrow> ordered_set (months data)],
                        var_within = Binary \<rparr>),
          (''Inv'', \<lparr> var_index = [[s, p, t]. s \<leftarrow> ordered_set (scenario_names scen),
                                                p \<leftarrow> ordered_set (plant_ids data),
                                                t \<leftarrow> ordered_set (months data)],
                    var_within = NonNegativeReals \<rparr>)],
       Objective = (\<lambda>_. 0) \<rparr>"
  from assms have mm: "mm = ?mm0\<lparr>Objective := expected_cost_obj ?mm0\<rparr>"
    unfolding build_stochastic_model_def Let_def
    by (simp split: if_splits)
  have same: "expected_cost_obj (?mm0\<lparr>Objective := expected_cost_obj ?mm0\<rparr>)
                = expected_cost_obj ?mm0"
    by (rule ext) (simp add: expected_cost_obj_def)
  show "P mm = ordered_set (plant_ids data)" "T mm = ordered_set (months data)"
    "R mm = ordered_set (routes data)" "S mm = ordered_set (scenario_names scen)"
    "ProdCost mm = Param (production_cost data)" "HoldCost mm = Param (holding_cost data)"
    "CostPerTrip mm = Param (transport_cost_per_trip data)"
    "Prob mm = Param (map_of (scenario_probability scen))"
    unfolding mm by simp_all
  show "Objective mm = expected_cost_obj mm"
    unfolding mm same by simp
  show "variables mm =
     [(''Prod'', \<lparr> var_index = [[p, t]. p \<leftarrow> ordered_set (plant_ids data),
                                          t \<leftarrow> ordered_set (months data)],
                 var_within = NonNegativeReals \<rparr>),
      (''Ship'', \<lparr> var_index = [[i, j, k, t]. (i, j, k) \<leftarrow> ordered_set (routes data),
                                                t \<leftarrow> ordered_set (months data)],
                 var_within = NonNegativeReals \<rparr>),
      (''Trips'', \<lparr> var_index = [[i, j, k, t]. (i, j, k) \<leftarrow> ordered_set (routes data),
                                                 t \<leftarrow> ordered_set (months data)],
                  var_within = NonNegativeIntegers \<rparr>),
      (''UseMode'', \<lparr> var_index = [[i, j, k, t]. (i, j, k) \<leftarrow> ordered_set (routes data),
                                                   t \<leftarrow> ordered_set (months data)],
                    var_within = Binary \<rparr>),
      (''Inv'', \<lparr> var_index = [[s, p, t]. s \<leftarrow> ordered_set (scenario_names scen),
                                            p \<leftarrow> ordered_set (plant_ids data),
                                            t \<leftarrow> ordered_set (months data)],
                var_within = NonNegativeReals \<rparr>)]"
    unfolding mm by simp
qed

lemma example_build:
  "\<not> isl (build_stochastic_model example_data example_scen)"
  by (simp add: build_stochastic_model_def Let_def ordered_set_def defined_on_def
      example_data_def example_scen_def)

text \<open>
  Claim C3, as the specification states it: in the stochastic model the production,
  shipment, trip and mode-selection variables are indexed by plant or route and period
  only, the inventory and a non-negative demand slack are indexed by scenario, plant and
  period, and the objective is the production cost plus the probability-weighted sum of
  each scenario's transport, holding and penalty cost. It fails: the model that
  \<open>build_stochastic_model\<close> builds declares no demand slack at all.
\<close>

theorem stochastic_model_counterexample:
  "\<not> isl (build_stochastic_model example_data example_scen)
   \<and> map_of (variables (projr (build_stochastic_model example_data example_scen)))
        ''DemandSlack'' = None"
proof -
  obtain mm where mm: "build_stochastic_model example_data example_scen = Inr mm"
    using example_build by (cases "build_stochastic_model example_data example_scen") auto
  from build_stochastic_model_Inr(10) [OF mm] mm show ?thesis by simp
qed

text \<open>
  Claim C3, amended: the stochastic model, when the builder returns one, declares exactly
  the variable families \<open>Prod\<close> (plant, period), \<open>Ship\<close>, \<open>Trips\<close> and \<open>UseMode\<close>
  (route, period), shared by all scenarios, and the non-negative \<open>Inv\<close> (scenario, plant,
  period), over the plants, routes, periods and scenarios of the data, each taken once; it
  has no demand slack and no penalty. Its objective is the production cost plus the
  transport cost (trips times cost per trip, counted once) plus the probability-weighted
  sum over the scenarios of that scenario's holding cost; when the probabilities of the
  model's scenarios sum to 1 this is the production cost plus the probability-weighted
  sum of each scenario's transport and holding cost.
\<close>

theorem stochastic_model_amended:
  "build_stochastic_model data scen = Inr mm \<longrightarrow>
     variables mm =
       [(''Prod'', \<lparr> var_index = [[p, t]. p \<leftarrow> ordered_set (plant_ids data),
                                            t \<leftarrow> ordered_set (months data)],
                   var_within = NonNegativeReals \<rparr>),
        (''Ship'', \<lparr> var_index = [[i, j, k, t]. (i, j, k) \<leftarrow> ordered_set (routes data),
                                                  t \<leftarrow> ordered_set (months data)],
                   var_within = NonNegativeReals \<rparr>),
        (''Trips'', \<lparr> var_index = [[i, j, k, t]. (i, j, k) \<leftarrow> ordered_set (routes data),
                                                   t \<leftarrow> ordered_set (months data)],
                    var_within = NonNegativeIntegers \<rparr>),
        (''UseMode'', \<lparr> var_index = [[i, j, k, t]. (i, j, k) \<leftarrow> ordered_set (routes data),
                                                     t \<leftarrow> ordered_set (months data)],
                      var_within = Binary \<rparr>),
        (''Inv'', \<lparr> var_index = [[s, p, t]. s \<leftarrow> ordered_set (scenario_names scen),
                                              p \<leftarrow> ordered_set (plant_ids data),
                                              t \<leftarrow> ordered_set (months data)],
                  var_within = NonNegativeReals \<rparr>)]
     \<and> Objective mm v =
         sum_list [Param (production_cost data) p * Prod v p t.
                   p \<leftarrow> ordered_set (plant_ids data), t \<leftarrow> ordered_set (months data)]
           + sum_list [Param (transport_cost_per_trip data) r * Trips v r t.
                       r \<leftarrow> ordered_set (routes data), t \<leftarrow> ordered_set (months data)]
           + sum_list [Param (map_of (scenario_probability scen)) s *
                         sum_list [Param (holding_cost data) p * InvS v s p t.
                                   p \<leftarrow> ordered_set (plant_ids data),
                                   t \<leftarrow> ordered_set (months data)].
                       s \<leftarrow> ordered_set (scenario_names scen)]
     \<and> (sum_list (map (Param (map_of (scenario_probability scen)))
                      (ordered_set (scenario_names scen))) = 1
          \<longrightarrow> Objective mm v = spec_expected_cost mm v)"
proof (intro impI conjI)
  assume ok: "build_stochastic_model data scen = Inr mm"
  note facts = build_stochastic_model_Inr [OF ok]
  show "variables mm =
       [(''Prod'', \<lparr> var_index = [[p, t]. p \<leftarrow> ordered_set (plant_ids data),
                                            t \<leftarrow> ordered_set (months data)],
                   var_within = NonNegativeReals \<rparr>),
        (''Ship'', \<lparr> var_index = [[i, j, k, t]. (i, j, k) \<leftarrow> ordered_set (routes data),
                                                  t \<leftarrow> ordered_set (months data)],
                   var_within = NonNegativeReals \<rparr>),
        (''Trips'', \<lparr> var_index = [[i, j, k, t]. (i, j, k) \<leftarrow> ordered_set (routes data),
                                                   t \<leftarrow> ordered_set (months data)],
                    var_within = NonNegativeIntegers \<rparr>),
        (''UseMode'', \<lparr> var_index = [[i, j, k, t]. (i, j, k) \<leftarrow> ordered_set (routes data),
                                                     t \<leftarrow> ordered_set (months data)],
                      var_within = Binary \<rparr>),
        (''Inv'', \<lparr> var_index = [[s, p, t]. s \<leftarrow> ordered_set (scenario_names scen),
                                              p \<leftarrow> ordered_set (plant_ids data),
                                              t \<leftarrow> ordered_set (months data)],
                  var_within = NonNegativeReals \<rparr>)]"
    by (rule facts(10))
  show "Objective mm v =
         sum_list [Param (production_cost data) p * Prod v p t.
                   p \<leftarrow> ordered_set (plant_ids data), t \<leftarrow> ordered_set (months data)]
           + sum_list [Param (transport_cost_per_trip data) r * Trips v r t.
                       r \<leftarrow> ordered_set (routes data), t \<leftarrow> ordered_set (months data)]
           + sum_list [Param (map_of (scenario_probability scen)) s *
                         sum_list [Param (holding_cost data) p * InvS v s p t.
                                   p \<leftarrow> ordered_set (plant_ids data),
                                   t \<leftarrow> ordered_set (months data)].
                       s \<leftarrow> ordered_set (scenario_names scen)]"
    unfolding facts(9) expected_cost_obj_eq facts(1-8) ..
  assume "sum_list (map (Param (map_of (scenario_probability scen)))
                      (ordered_set (scenario_names scen))) = 1"
  then have "sum_list (map (Prob mm) (S mm)) = 1"
    by (simp add: facts(4,8))
  from spec_expected_cost_eq [OF this]
  show "Objective mm v = spec_expected_cost mm v"
    by (simp add: facts(9))
qed

theorem stochastic_model_amended_witness:
  "\<not> isl (build_stochastic_model example_data example_scen)
   \<and> sum_list (map (Param (map_of (scenario_probability example_scen)))
                   (ordered_set (scenario_names example_scen))) = 1
   \<and> Objective (projr (build_stochastic_model example_data example_scen)) example_svals
       = spec_expected_cost (projr (build_stochastic_model example_data example_scen))
           example_svals
   \<and> Objective (projr (build_stochastic_model example_data example_scen)) example_svals = 452
   \<and> \<not> isl (build_stochastic_model
               (example_data\<lparr>routes := [(''A'', ''B'', ''Road''), (''A'', ''B'', ''Road'')]\<rparr>)
               example_scen)
   \<and> Objective (projr (build_stochastic_model
                         (example_data\<lparr>routes := [(''A'', ''B'', ''Road''), (''A'', ''B'', ''Road'')]\<rparr>)
                         example_scen)) example_svals = 452
   \<and> build_stochastic_model example_data
         (example_scen\<lparr>scenario_probability := [('' Low'', 1/2), (''High'', 1/2)]\<rparr>)
       = Inl IndexNotValid"
proof -
  let ?twice = "example_data\<lparr>routes := [(''A'', ''B'', ''Road''), (''A'', ''B'', ''Road'')]\<rparr>"
  obtain mm where mm: "build_stochastic_model example_data example_scen = Inr mm"
    using example_build by (cases "build_stochastic_model example_data example_scen") auto
  have one: "sum_list (map (Param (map_of (scenario_probability example_scen)))
                   (ordered_set (scenario_names example_scen))) = 1"
    by (simp add: example_scen_def ordered_set_def Param_def)
  from stochastic_model_amended [of example_data example_scen mm example_svals] mm one
  have first: "Objective mm example_svals = spec_expected_cost mm example_svals"
    "Objective mm example_svals = 452"
    by (simp_all add: example_data_def example_scen_def example_svals_def Param_def
        ordered_set_def)
  have built: "\<not> isl (build_stochastic_model ?twice example_scen)"
    by (simp add: build_stochastic_model_def Let_def ordered_set_def defined_on_def
        example_data_def example_scen_def)
  then obtain m2 where m2: "build_stochastic_model ?twice example_scen = Inr m2"
    by (cases "build_stochastic_model ?twice example_scen") auto
  from stochastic_model_amended [of ?twice example_scen m2 example_svals] m2
  have second: "Objective m2 example_svals = 452"
    by (simp add: example_data_def example_scen_def example_svals_def Param_def
        ordered_set_def)
  have third: "build_stochastic_model example_data
         (example_scen\<lparr>scenario_probability := [('' Low'', 1/2), (''High'', 1/2)]\<rparr>)
       = Inl IndexNotValid"
    by (simp add: build_stochastic_model_def Let_def ordered_set_def defined_on_def
        example_data_def example_scen_def)
  from mm one first example_build built m2 second third show ?thesis by simp
qed

section \<open>Backend selection of the solver orchestrator\<close>

lemma fallback_loop_find:
  "\<not> av cur \<Longrightarrow>
   fst (fallback_loop av cur chain)
     = (case find av chain of Some s \<Rightarrow> s | None \<Rightarrow> last (cur # chain))"
  by (induction av cur chain rule: fallback_loop.induct) (auto split: prod.splits option.splits)

lemma fallback_loop_available:
  "\<not> av cur \<Longrightarrow> av (fst (fallback_loop av cur chain)) = (find av chain \<noteq> None)"
proof (induction av cur chain rule: fallback_loop.induct)
  case (1 av cur)
  then show ?case by simp
next
  case (2 av cur alt rest)
  then show ?case by (auto split: prod.splits)
qed

lemma select_solver_find:
  "fst (select_solver env r) =
     (case find (available env) (r # fallback_chain r) of
        Some s \<Rightarrow> s | None \<Rightarrow> last (r # fallback_chain r))"
  by (simp add: select_solver_def fallback_loop_find split: option.splits)

lemma select_solver_available:
  "available env (fst (select_solver env r))
     = (find (available env) (r # fallback_chain r) \<noteq> None)"
  by (simp add: select_solver_def fallback_loop_available)

lemma fallback_order:
  "r \<in> set backends \<Longrightarrow> r # fallback_chain r = dropWhile (\<lambda>b. b \<noteq> r) backends"
  by (auto simp add: backends_def fallback_chain_def)

text \<open>
  Claim C4: a backend name that, trimmed and lower-cased, is outside the set of the four
  backends is rejected at once, whatever is installed: the outcome is the invalid-solver
  outcome and no backend is consulted. For a valid name the orchestrator takes the first
  available backend in the fixed order gurobi, cbc, highs, scip, starting at the requested
  one, and that backend is the solver used. When no backend from the requested one onward
  is available, the outcome is a failure with the termination condition
  \<open>not_available\<close> and no solver used; an outcome that reports infeasibility always
  names the solver that ran, so the two are never conflated.
\<close>

theorem solve_model_backend_selection:
  "(lower (strip (solver_name config)) \<notin> set backends \<longrightarrow>
      solve_model env config =
        \<lparr> ok = False, message = ''Invalid solver selected.'',
          termination_condition = ''invalid'', solver_status = ''invalid'',
          solver_used = None, runtime_seconds = None, solver_log_path = None \<rparr>)
   \<and> (lower (strip (solver_name config)) \<in> set backends \<longrightarrow>
        (case find (available env)
                (dropWhile (\<lambda>b. b \<noteq> lower (strip (solver_name config))) backends) of
           Some s \<Rightarrow> solver_used (solve_model env config) = Some s
         | None \<Rightarrow> \<not> ok (solve_model env config)
                    \<and> termination_condition (solve_model env config) = ''not_available''
                    \<and> solver_used (solve_model env config) = None))
   \<and> (lower (termination_condition (solve_model env config)) = ''infeasible'' \<longrightarrow>
        solver_used (solve_model env config) \<noteq> None)"
proof (intro conjI impI)
  assume "lower (strip (solver_name config)) \<notin> set backends"
  then show "solve_model env config =
        \<lparr> ok = False, message = ''Invalid solver selected.'',
          termination_condition = ''invalid'', solver_status = ''invalid'',
          solver_used = None, runtime_seconds = None, solver_log_path = None \<rparr>"
    by (simp add: solve_model_def)
next
  let ?r = "lower (strip (solver_name config))"
  assume valid: "?r \<in> set backends"
  have chain: "dropWhile (\<lambda>b. b \<noteq> ?r) backends = ?r # fallback_chain ?r"
    using fallback_order [OF valid] by simp
  show "case find (available env) (dropWhile (\<lambda>b. b \<noteq> ?r) backends) of
           Some s \<Rightarrow> solver_used (solve_model env config) = Some s
         | None \<Rightarrow> \<not> ok (solve_model env config)
                    \<and> termination_condition (solve_model env config) = ''not_available''
                    \<and> solver_used (solve_model env config) = None"
  proof (cases "find (available env) (?r # fallback_chain ?r)")
    case None
    then have "\<not> available env (fst (select_solver env ?r))"
      by (simp add: select_solver_available)
    with valid None show ?thesis
      unfolding chain by (simp add: solve_model_def Let_def)
  next
    case (Some s)
    then have av: "available env (fst (select_solver env ?r))"
      by (simp add: select_solver_available)
    have nm: "fst (select_solver env ?r) = s"
      using Some by (simp add: select_solver_find)
    from valid av nm Some show ?thesis
      unfolding chain
      by (simp add: solve_model_def Let_def split: solve_result.splits)
  qed
next
  assume inf: "lower (termination_condition (solve_model env config)) = ''infeasible''"
  show "solver_used (solve_model env config) \<noteq> None"
  proof
    assume "solver_used (solve_model env config) = None"
    then have "termination_condition (solve_model env config) \<in> {''invalid'', ''not_available''}"
      by (auto simp add: solve_model_def Let_def split: if_splits solve_result.splits)
    with inf show False
      by (auto simp add: lower_examples)
  qed
qed

theorem solve_model_backend_selection_witness:
  "solve_model example_env \<lparr> solver_name = ''cplex'', time_limit_seconds = 60, mip_gap = 0.01 \<rparr>
     = \<lparr> ok = False, message = ''Invalid solver selected.'',
          termination_condition = ''invalid'', solver_status = ''invalid'',
          solver_used = None, runtime_seconds = None, solver_log_path = None \<rparr>
   \<and> solver_used (solve_model example_env
        \<lparr> solver_name = '' CBC '', time_limit_seconds = 60, mip_gap = 0.01 \<rparr>) = Some ''highs''
   \<and> termination_condition (solve_model (example_env\<lparr>available := (\<lambda>n. n = ''gurobi'')\<rparr>)
        \<lparr> solver_name = '' CBC '', time_limit_seconds = 60, mip_gap = 0.01 \<rparr>) = ''not_available''
   \<and> solver_used (solve_model (example_env\<lparr>run := (\<lambda>_. Solved ''warning'' ''infeasible'' 2)\<rparr>)
        \<lparr> solver_name = '' CBC '', time_limit_seconds = 60, mip_gap = 0.01 \<rparr>) \<noteq> None"
  using solve_model_backend_selection
          [of "\<lparr> solver_name = ''cplex'', time_limit_seconds = 60, mip_gap = 0.01 \<rparr>" example_env]
        solve_model_backend_selection
          [of "\<lparr> solver_name = '' CBC '', time_limit_seconds = 60, mip_gap = 0.01 \<rparr>" example_env]
        solve_model_backend_selection
          [of "\<lparr> solver_name = '' CBC '', time_limit_seconds = 60, mip_gap = 0.01 \<rparr>"
              "example_env\<lparr>available := (\<lambda>n. n = ''gurobi'')\<rparr>"]
        solve_model_backend_selection
          [of "\<lparr> solver_name = '' CBC '', time_limit_seconds = 60, mip_gap = 0.01 \<rparr>"
              "example_env\<lparr>run := (\<lambda>_. Solved ''warning'' ''infeasible'' 2)\<rparr>"]
  by (simp add: lower_examples backends_def example_env_def)

section \<open>The cost breakdown of a parsed run\<close>

lemma loaded_simps:
  "Prod (loaded sol) p t = safe_value (Prod sol p t)"
  "Trips (loaded sol) r t = safe_value (Trips sol r t)"
  "Inv (loaded sol) p t = safe_value (Inv sol p t)"
  by (simp_all add: loaded_def)

text \<open>
  Claim C5, as the specification states it: for every parsed solved run the recomputed
  cost breakdown, production plus transport plus holding (plus penalty when present),
  reproduces the objective value. It fails for a run whose model carries the objective
  of the feasibility-repair variant: \<open>parse_results\<close> has no penalty component and
  prices trips, not shipments. With one trip that carries 5 units at 20 per trip and a
  slack of 2 at each of two plants, every variable of the objective has a value, the
  breakdown sums to 20 and the reported objective value is 40100.
\<close>

theorem cost_breakdown_counterexample:
  "has_values (add_feasible_objective example_model) example_feasible_solution
   \<and> sum_list (map snd (cost_breakdown
        (parse_results (add_feasible_objective example_model) (plant_names example_data)
           example_feasible_solution))) = 20
   \<and> objective_value
        (parse_results (add_feasible_objective example_model) (plant_names example_data)
           example_feasible_solution) = 40100"
  by (simp add: has_values_def example_model_def example_feasible_solution_def
      add_objective_def add_feasible_objective_def feasible_total_cost_def
      parse_results_def value_TotalCost_def safe_value_def loaded_def)

text \<open>
  Claim C5, amended: \<open>parse_results\<close> recomputes three components from the solved
  variable values, production quantity times unit cost, trips times cost per trip and
  inventory times holding cost, and no penalty; the objective value it reports is the
  model's objective at the solved values whenever every variable of that objective has a
  value. For a run whose model carries the deterministic objective the
  three components sum to the reported objective value, which is that objective at the
  solved values. Over the real numbers the two are equal; the floating-point computation
  agrees with it up to rounding.
\<close>

theorem cost_breakdown_reproducible:
  "cost_breakdown (parse_results m names sol) =
     [(''production'', sum_list [safe_value (Prod sol p t) * ProdCost m p. p \<leftarrow> P m, t \<leftarrow> T m]),
      (''transport'', sum_list [safe_value (Trips sol r t) * RouteCost m r. r \<leftarrow> R m, t \<leftarrow> T m]),
      (''holding'', sum_list [safe_value (Inv sol p t) * HoldCost m p. p \<leftarrow> P m, t \<leftarrow> T m])]
   \<and> (has_values m sol \<longrightarrow>
        objective_value (parse_results m names sol) = TotalCost m (loaded sol))
   \<and> (has_values (add_objective m) sol \<longrightarrow>
        sum_list (map snd (cost_breakdown (parse_results (add_objective m) names sol)))
          = objective_value (parse_results (add_objective m) names sol)
        \<and> objective_value (parse_results (add_objective m) names sol)
            = total_cost_rule m (loaded sol))"
proof -
  have breakdown: "cost_breakdown (parse_results m names sol) =
     [(''production'', sum_list [safe_value (Prod sol p t) * ProdCost m p. p \<leftarrow> P m, t \<leftarrow> T m]),
      (''transport'', sum_list [safe_value (Trips sol r t) * RouteCost m r. r \<leftarrow> R m, t \<leftarrow> T m]),
      (''holding'', sum_list [safe_value (Inv sol p t) * HoldCost m p. p \<leftarrow> P m, t \<leftarrow> T m])]"
    by (simp add: parse_results_def Let_def)
  have objective: "has_values m sol \<longrightarrow>
        objective_value (parse_results m names sol) = TotalCost m (loaded sol)"
    by (simp add: parse_results_def Let_def value_TotalCost_def safe_value_def)
  have deterministic: "has_values (add_objective m) sol \<longrightarrow>
        sum_list (map snd (cost_breakdown (parse_results (add_objective m) names sol)))
          = objective_value (parse_results (add_objective m) names sol)
        \<and> objective_value (parse_results (add_objective m) names sol)
            = total_cost_rule m (loaded sol)"
    by (simp add: parse_results_def Let_def add_objective_simps value_TotalCost_def
        safe_value_def total_cost_rule_def loaded_simps)
  from breakdown objective deterministic show ?thesis by blast
qed

theorem cost_breakdown_reproducible_witness:
  "has_values (add_objective example_model) example_partial_solution
   \<and> sum_list (map snd (cost_breakdown
        (parse_results (add_objective example_model) (plant_names example_data)
           example_partial_solution)))
      = objective_value
          (parse_results (add_objective example_model) (plant_names example_data)
             example_partial_solution)
   \<and> objective_value
        (parse_results (add_objective example_model) (plant_names example_data)
           example_partial_solution) = 220"
  using cost_breakdown_reproducible
          [of example_model "plant_names example_data" example_partial_solution]
  by (simp add: has_values_def example_model_def example_partial_solution_def add_objective_def
      add_feasible_objective_def total_cost_rule_def loaded_def safe_value_def)

section \<open>The resilience score\<close>

text \<open>
  Claim C7, as the specification states it: the resilience score is the unweighted
  average of the service level and of 100 minus the utilisation of production, storage
  and transport. It fails where a utilisation exceeds 100: the code bounds each headroom
  below by 0. With service level 100, production utilisation 200 and storage and
  transport utilisation 0 the code's score is 75, classified Balanced, and the stated
  average is 50, classified At Risk.
\<close>

theorem resilience_score_counterexample:
  "resilience_score 100 [200] [0] [0] = 75
   \<and> spec_resilience_score 100 [200] [0] [0] = 50
   \<and> classification (resilience_score 100 [200] [0] [0]) = ''Balanced''
   \<and> classification (spec_resilience_score 100 [200] [0] [0]) = ''At Risk''"
  by (simp add: resilience_score_def resilience_components_def avg_headroom_def
      spec_resilience_score_def classification_def)

text \<open>
  Claim C7, amended: the resilience score is the unweighted average of the service level
  and of the headrooms of those of production, storage and transport whose utilisation
  table is not empty, a headroom being 100 minus the average utilisation and at least 0.
  When the three tables are not empty and no average utilisation exceeds 100 it is the
  average of the service level and the three values 100 minus utilisation. The score is
  classified Resilient from 80, Balanced from 60 and At Risk below 60. Service level 100
  with the three headrooms at 50 gives 62.5, Balanced; all four components at 85 give
  85, Resilient; all four at 40 give 40, At Risk.
\<close>

theorem resilience_score_amended:
  "resilience_score sl pu su tu =
     (sl + sum_list [max 0 (100 - sum_list u / real (length u)). u \<leftarrow> [pu, su, tu], u \<noteq> []])
       / real (1 + length [u \<leftarrow> [pu, su, tu]. u \<noteq> []])
   \<and> (pu \<noteq> [] \<and> su \<noteq> [] \<and> tu \<noteq> []
      \<and> sum_list pu / real (length pu) \<le> 100
      \<and> sum_list su / real (length su) \<le> 100
      \<and> sum_list tu / real (length tu) \<le> 100
     \<longrightarrow> resilience_score sl pu su tu = spec_resilience_score sl pu su tu)
   \<and> (classification (resilience_score sl pu su tu) = ''Resilient''
        \<longleftrightarrow> resilience_score sl pu su tu \<ge> 80)
   \<and> (classification (resilience_score sl pu su tu) = ''Balanced''
        \<longleftrightarrow> 60 \<le> resilience_score sl pu su tu \<and> resilience_score sl pu su tu < 80)
   \<and> (classification (resilience_score sl pu su tu) = ''At Risk''
        \<longleftrightarrow> resilience_score sl pu su tu < 60)
   \<and> resilience_score 100 [50] [50] [50] = 62.5
   \<and> classification (resilience_score 100 [50] [50] [50]) = ''Balanced''
   \<and> resilience_score 85 [15] [15] [15] = 85
   \<and> classification (resilience_score 85 [15] [15] [15]) = ''Resilient''
   \<and> resilience_score 40 [60] [60] [60] = 40
   \<and> classification (resilience_score 40 [60] [60] [60]) = ''At Risk''"
proof -
  have general: "resilience_score sl pu su tu =
     (sl + sum_list [max 0 (100 - sum_list u / real (length u)). u \<leftarrow> [pu, su, tu], u \<noteq> []])
       / real (1 + length [u \<leftarrow> [pu, su, tu]. u \<noteq> []])"
    by (simp add: resilience_score_def resilience_components_def avg_headroom_def Let_def)
  have full: "pu \<noteq> [] \<and> su \<noteq> [] \<and> tu \<noteq> []
      \<and> sum_list pu / real (length pu) \<le> 100
      \<and> sum_list su / real (length su) \<le> 100
      \<and> sum_list tu / real (length tu) \<le> 100
     \<longrightarrow> resilience_score sl pu su tu = spec_resilience_score sl pu su tu"
    by (simp add: resilience_score_def resilience_components_def avg_headroom_def Let_def
        spec_resilience_score_def max_def)
  have classes:
    "classification (resilience_score sl pu su tu) = ''Resilient''
        \<longleftrightarrow> resilience_score sl pu su tu \<ge> 80"
    "classification (resilience_score sl pu su tu) = ''Balanced''
        \<longleftrightarrow> 60 \<le> resilience_score sl pu su tu \<and> resilience_score sl pu su tu < 80"
    "classification (resilience_score sl pu su tu) = ''At Risk''
        \<longleftrightarrow> resilience_score sl pu su tu < 60"
    by (auto simp add: classification_def)
  have examples:
    "resilience_score 100 [50] [50] [50] = 62.5"
    "classification (resilience_score 100 [50] [50] [50]) = ''Balanced''"
    "resilience_score 85 [15] [15] [15] = 85"
    "classification (resilience_score 85 [15] [15] [15]) = ''Resilient''"
    "resilience_score 40 [60] [60] [60] = 40"
    "classification (resilience_score 40 [60] [60] [60]) = ''At Risk''"
    by (simp_all add: resilience_score_def resilience_components_def avg_headroom_def
        classification_def)
  from general full classes examples show ?thesis by blast
qed

theorem resilience_score_amended_witness:
  "resilience_score 90 [30, 50] [20] [10] = spec_resilience_score 90 [30, 50] [20] [10]
   \<and> resilience_score 90 [30, 50] [20] [10] = 80
   \<and> classification (resilience_score 90 [30, 50] [20] [10]) = ''Resilient''
   \<and> resilience_score 100 [] [0] [200] = 200 / 3"
  using resilience_score_amended [of 90 "[30, 50]" "[20]" "[10]"]
        resilience_score_amended [of 100 "[]" "[0]" "[200]"]
  by (simp add: spec_resilience_score_def classification_def)

section \<open>The rows of the result tables\<close>

text \<open>
  Claim C8, as the specification states it: the parser emits a production row only if the
  solved production is non-zero beyond a small epsilon, and a transport row only if the
  shipment or the trip count is. It fails: the parser compares with zero exactly, so a
  production of \<open>1e-12\<close>, below any such epsilon, has its row.
\<close>

theorem parser_rows_counterexample:
  "[(''plant_id'', Str ''A''), (''plant'', Str ''Alpha''), (''month'', Str ''2025-01''),
    (''production'', Num (1 / 1000000000000))]
     \<in> set (production_df (parse_results example_model (plant_names example_data) example_solution))"
  by (simp add: parse_results_def prod_rows_def example_model_def add_objective_def
      example_solution_def example_data_def safe_value_def plant_label_def)

text \<open>
  Claim C8, amended: the parser emits exactly the assignments that differ from zero, with
  no tolerance. A production row appears for a plant and period if and only if the solved
  production is not exactly zero, and a transport row for a route and period if and only
  if the solved shipment or the solved trip count is not exactly zero; the combinations
  whose values are exactly zero (or absent) are omitted.
\<close>

theorem parser_rows_amended:
  "(row \<in> set (production_df (parse_results m names sol)) \<longleftrightarrow>
      (\<exists>p t. p \<in> set (P m) \<and> t \<in> set (T m) \<and> safe_value (Prod sol p t) \<noteq> 0
         \<and> row = [(''plant_id'', Str p), (''plant'', Str (plant_label names p)),
                  (''month'', Str t), (''production'', Num (safe_value (Prod sol p t)))]))
   \<and> (row \<in> set (transport_df (parse_results m names sol)) \<longleftrightarrow>
      (\<exists>i j k t. (i, j, k) \<in> set (R m) \<and> t \<in> set (T m)
         \<and> (safe_value (Ship sol (i, j, k) t) \<noteq> 0 \<or> safe_value (Trips sol (i, j, k) t) \<noteq> 0)
         \<and> row = [(''from_id'', Str i), (''from'', Str (plant_label names i)),
                  (''to_id'', Str j), (''to'', Str (plant_label names j)),
                  (''mode'', Str k), (''month'', Str t),
                  (''shipment'', Num (safe_value (Ship sol (i, j, k) t))),
                  (''trips'', IntNum (py_round (safe_value (Trips sol (i, j, k) t))))]))"
  by (auto simp add: parse_results_def Let_def prod_rows_def ship_rows_def)

theorem parser_rows_amended_witness:
  "production_df (parse_results example_model (plant_names example_data) example_solution)
     = [[(''plant_id'', Str ''A''), (''plant'', Str ''Alpha''), (''month'', Str ''2025-01''),
         (''production'', Num (1 / 1000000000000))]]
   \<and> [(''plant_id'', Str ''B''), (''plant'', Str ''Beta''), (''month'', Str ''2025-01''),
       (''production'', Num 0)]
       \<notin> set (production_df
                (parse_results example_model (plant_names example_data) example_solution))
   \<and> transport_df (parse_results example_model (plant_names example_data) example_solution) = []"
  using parser_rows_amended
          [of "[(''plant_id'', Str ''B''), (''plant'', Str ''Beta''), (''month'', Str ''2025-01''),
                (''production'', Num 0)]"
              example_model "plant_names example_data" example_solution]
  by (simp add: parse_results_def prod_rows_def ship_rows_def example_model_def add_objective_def
      example_solution_def example_data_def safe_value_def plant_label_def)

text \<open>
  Claim C10: the inventory table has one row for every plant and period in a
  deterministic run and one for every scenario, plant and period in an uncertainty run,
  in that order, whatever the solved level is, a level of zero included; so its length
  is the number of plants times the number of periods (times the number of scenarios).
\<close>

theorem inventory_rows_complete:
  "length (inventory_df (parse_results m names sol)) = length (P m) * length (T m)
   \<and> map (\<lambda>row. (map_of row ''plant_id'', map_of row ''month'', map_of row ''inventory''))
         (inventory_df (parse_results m names sol))
       = [(Some (Str p), Some (Str t), Some (Num (safe_value (Inv sol p t)))). p \<leftarrow> P m, t \<leftarrow> T m]
   \<and> length (uncertainty_inv_rows mm names ssol) = length (S mm) * length (P mm) * length (T mm)
   \<and> map (\<lambda>row. (map_of row ''scenario'', map_of row ''plant_id'', map_of row ''month'',
                   map_of row ''inventory''))
         (uncertainty_inv_rows mm names ssol)
       = [(Some (Str s), Some (Str p), Some (Str t), Some (Num (safe_value (InvS ssol s p t)))).
          s \<leftarrow> S mm, p \<leftarrow> P mm, t \<leftarrow> T mm]
   \<and> inventory_df (parse_results example_model (plant_names example_data) example_solution)
       = [[(''plant_id'', Str ''A''), (''plant'', Str ''Alpha''), (''month'', Str ''2025-01''),
           (''inventory'', Num 0)],
          [(''plant_id'', Str ''B''), (''plant'', Str ''Beta''), (''month'', Str ''2025-01''),
           (''inventory'', Num 0)]]"
proof -
  have general:
    "length (inventory_df (parse_results m names sol)) = length (P m) * length (T m)"
    "map (\<lambda>row. (map_of row ''plant_id'', map_of row ''month'', map_of row ''inventory''))
         (inventory_df (parse_results m names sol))
       = [(Some (Str p), Some (Str t), Some (Num (safe_value (Inv sol p t)))). p \<leftarrow> P m, t \<leftarrow> T m]"
    "length (uncertainty_inv_rows mm names ssol) = length (S mm) * length (P mm) * length (T mm)"
    "map (\<lambda>row. (map_of row ''scenario'', map_of row ''plant_id'', map_of row ''month'',
                   map_of row ''inventory''))
         (uncertainty_inv_rows mm names ssol)
       = [(Some (Str s), Some (Str p), Some (Str t), Some (Num (safe_value (InvS ssol s p t)))).
          s \<leftarrow> S mm, p \<leftarrow> P mm, t \<leftarrow> T mm]"
    by (simp_all add: parse_results_def Let_def inv_rows_def uncertainty_inv_rows_def
        length_nested length_nested3 map_concat comp_def)
  have example:
    "inventory_df (parse_results example_model (plant_names example_data) example_solution)
       = [[(''plant_id'', Str ''A''), (''plant'', Str ''Alpha''), (''month'', Str ''2025-01''),
           (''inventory'', Num 0)],
          [(''plant_id'', Str ''B''), (''plant'', Str ''Beta''), (''month'', Str ''2025-01''),
           (''inventory'', Num 0)]]"
    by (simp add: parse_results_def inv_rows_def example_model_def add_objective_def
        example_solution_def example_data_def safe_value_def plant_label_def)
  from general example show ?thesis by blast
qed

section \<open>The scenario generator\<close>

lemma prob_loop_fails:
  "fails (prob_loop acc ss) \<longleftrightarrow> list_ex (\<lambda>s. probability s < 0) ss"
  by (induction ss arbitrary: acc) (auto simp add: fails_def)

lemma prob_loop_distinct:
  "\<lbrakk> distinct (map fst acc @ map name ss); \<not> list_ex (\<lambda>s. probability s < 0) ss \<rbrakk>
   \<Longrightarrow> prob_loop acc ss = Inr (acc @ map (\<lambda>s. (name s, probability s)) ss)"
proof (induction ss arbitrary: acc)
  case Nil
  then show ?case by simp
next
  case (Cons s ss)
  from Cons.prems have notin: "name s \<notin> fst ` set acc" by auto
  then have upd: "AList.update (name s) (probability s) acc = acc @ [(name s, probability s)]"
    by (induction acc) auto
  have "distinct (map fst (acc @ [(name s, probability s)]) @ map name ss)"
    using Cons.prems by auto
  moreover have "\<not> list_ex (\<lambda>s. probability s < 0) ss" using Cons.prems by simp
  ultimately have "prob_loop (acc @ [(name s, probability s)]) ss
      = Inr ((acc @ [(name s, probability s)]) @ map (\<lambda>s. (name s, probability s)) ss)"
    by (rule Cons.IH)
  with Cons.prems upd show ?case by simp
qed

lemma demand_loop_fails:
  "fails (demand_loop d dm ss) \<longleftrightarrow> list_ex (\<lambda>s. demand_multiplier s < 0) ss"
  by (induction ss arbitrary: dm) (auto simp add: fails_def)

lemma fold_store_other:
  "n' \<noteq> n \<Longrightarrow>
   fold (\<lambda>(p, t) d. d((n, p, t) \<mapsto> f p t)) pts dm (n', p', t') = dm (n', p', t')"
  by (induction pts arbitrary: dm) auto

lemma fold_store_same:
  "fold (\<lambda>(p, t) d. d((n, p, t) \<mapsto> f p t)) pts dm (n, p', t')
     = (if (p', t') \<in> set pts then Some (f p' t') else dm (n, p', t'))"
proof (induction pts arbitrary: dm)
  case Nil
  show ?case by simp
next
  case (Cons pt pts)
  obtain a b where pt: "pt = (a, b)" by (cases pt)
  let ?F = "\<lambda>(p, t) d. d((n, p, t) \<mapsto> f p t)"
  have "fold ?F (pt # pts) dm (n, p', t') = fold ?F pts (dm((n, a, b) \<mapsto> f a b)) (n, p', t')"
    unfolding pt by (simp only: fold_simps comp_apply prod.case)
  also have "\<dots> = (if (p', t') \<in> set pts then Some (f p' t')
                    else (dm((n, a, b) \<mapsto> f a b)) (n, p', t'))"
    by (rule Cons.IH)
  also have "\<dots> = (if (p', t') \<in> set (pt # pts) then Some (f p' t') else dm (n, p', t'))"
    unfolding pt by auto
  finally show ?case .
qed

lemma store_scenario_lookup:
  "store_scenario d s dm (n, p, t) =
     (if n = name s \<and> p \<in> set (plant_ids d) \<and> t \<in> set (months d)
      then Some (base_demand d p t * demand_multiplier s)
      else dm (n, p, t))"
proof (cases "n = name s")
  case True
  then show ?thesis by (auto simp add: store_scenario_def fold_store_same)
next
  case False
  then show ?thesis by (simp add: store_scenario_def fold_store_other)
qed

lemma demand_loop_lookup:
  "\<lbrakk> demand_loop d dm ss = Inr r; distinct (map name ss); s \<in> set ss;
     p \<in> set (plant_ids d); t \<in> set (months d) \<rbrakk>
   \<Longrightarrow> r (name s, p, t) = Some (base_demand d p t * demand_multiplier s)"
proof (induction ss arbitrary: dm)
  case Nil
  then show ?case by simp
next
  case (Cons a ss)
  from Cons.prems(1) have nonneg: "\<not> demand_multiplier a < 0"
    and rest: "demand_loop d (store_scenario d a dm) ss = Inr r"
    by (auto split: if_splits)
  show ?case
  proof (cases "s \<in> set ss")
    case True
    with Cons.IH [OF rest] Cons.prems show ?thesis by simp
  next
    case False
    with Cons.prems have sa: "s = a" by simp
    have keep: "\<And>dm'. demand_loop d dm' ss = Inr r \<Longrightarrow> name a \<notin> name ` set ss
                  \<Longrightarrow> r (name a, p, t) = dm' (name a, p, t)"
    proof -
      fix dm' show "demand_loop d dm' ss = Inr r \<Longrightarrow> name a \<notin> name ` set ss
                  \<Longrightarrow> r (name a, p, t) = dm' (name a, p, t)"
      proof (induction ss arbitrary: dm')
        case Nil
        then show ?case by simp
      next
        case (Cons b bs)
        from Cons.prems(1) have "demand_loop d (store_scenario d b dm') bs = Inr r"
          by (auto split: if_splits)
        from Cons.IH [OF this] Cons.prems(2)
        show ?case by (simp add: store_scenario_lookup)
      qed
    qed
    from Cons.prems(2) have "name a \<notin> name ` set ss" by simp
    from keep [OF rest this] sa Cons.prems show ?thesis
      by (simp add: store_scenario_lookup)
  qed
qed


lemma nonblank_names:
  "list_all (\<lambda>s. strip (name s) \<noteq> []) ss
   \<Longrightarrow> [strip (name s). s \<leftarrow> ss, strip (name s) \<noteq> []] = map (\<lambda>s. strip (name s)) ss"
  by (induction ss) simp_all

lemma remdups_length_distinct: "length xs \<noteq> length (remdups xs) \<longleftrightarrow> \<not> distinct xs"
proof -
  have "length (remdups xs) = length xs \<longleftrightarrow> distinct xs"
    by (simp only: length_remdups_eq remdups_id_iff_distinct)
  then show ?thesis by metis
qed

lemma distinct_stripped_names:
  "distinct (map (\<lambda>s. strip (name s)) ss) \<Longrightarrow> distinct (map name ss)"
proof -
  assume "distinct (map (\<lambda>s. strip (name s)) ss)"
  then have "distinct (map strip (map name ss))" by (simp add: comp_def)
  then show ?thesis by (simp only: distinct_map)
qed

lemma sum_list_snd_prob:
  "sum_list (map (snd \<circ> (\<lambda>s. (name s, probability s))) ss) = sum_list (map probability ss)"
  by (simp add: comp_def)

text \<open>
  Claim C6, as the specification states it: the generator fails exactly when the scenario
  names are not unique, or a probability or a multiplier is negative, or the
  probabilities do not sum to 1 within \<open>1e-6\<close>. It fails for names that are empty or
  blank: the generator leaves them out of its uniqueness check and keeps one probability
  and one demand per name, the last. Two scenarios that are both named by the empty
  string, with probabilities 0 and 1, are accepted although their names are not unique.
\<close>

theorem scenario_generator_counterexample:
  "\<not> fails (generate_demand_scenarios example_data
        [\<lparr> name = [], probability = 0, demand_multiplier = 1 \<rparr>,
         \<lparr> name = [], probability = 1, demand_multiplier = 2 \<rparr>])
   \<and> spec_scenarios_rejected
        [\<lparr> name = [], probability = 0, demand_multiplier = 1 \<rparr>,
         \<lparr> name = [], probability = 1, demand_multiplier = 2 \<rparr>]"
  by (simp add: generate_demand_scenarios_def strip_examples fails_def spec_scenarios_rejected_def)

text \<open>
  Claim C6, amended: for scenarios whose names all have a character that is not white
  space, the generator fails exactly when the names, trimmed of surrounding white space,
  are not unique, or some probability or demand multiplier is negative, or the
  probabilities do not sum to 1 within \<open>1e-6\<close> (an empty list among them); on success
  it returns, for every scenario, plant and period of the data set, under the scenario's
  name, the scenario's multiplier times the baseline demand of that plant and period.
\<close>

theorem scenario_generator_amended:
  "list_all (\<lambda>s. strip (name s) \<noteq> []) scenarios \<longrightarrow>
     (fails (generate_demand_scenarios base_data scenarios) \<longleftrightarrow>
        \<not> distinct (map (\<lambda>s. strip (name s)) scenarios)
        \<or> list_ex (\<lambda>s. probability s < 0 \<or> demand_multiplier s < 0) scenarios
        \<or> \<bar>sum_list (map probability scenarios) - 1\<bar> > 1 / 1000000)
     \<and> (\<forall>r s p t. generate_demand_scenarios base_data scenarios = Inr r
            \<and> s \<in> set scenarios \<and> p \<in> set (plant_ids base_data) \<and> t \<in> set (months base_data)
          \<longrightarrow> scenario_demand r (name s, p, t)
                = Some (demand_multiplier s * base_demand base_data p t))"
proof (intro impI conjI allI)
  assume nb: "list_all (\<lambda>s. strip (name s) \<noteq> []) scenarios"
  note names = nonblank_names [OF nb]
  show "fails (generate_demand_scenarios base_data scenarios) \<longleftrightarrow>
        \<not> distinct (map (\<lambda>s. strip (name s)) scenarios)
        \<or> list_ex (\<lambda>s. probability s < 0 \<or> demand_multiplier s < 0) scenarios
        \<or> \<bar>sum_list (map probability scenarios) - 1\<bar> > 1 / 1000000"
  proof (cases "scenarios = []")
    case True
    then show ?thesis by (simp add: generate_demand_scenarios_def fails_def)
  next
    case nonempty: False
    show ?thesis
    proof (cases "distinct (map (\<lambda>s. strip (name s)) scenarios)")
      case False
      with nonempty show ?thesis
        by (simp add: generate_demand_scenarios_def names remdups_length_distinct fails_def)
    next
      case dist: True
      then have raw: "distinct (map name scenarios)" by (rule distinct_stripped_names)
      show ?thesis
      proof (cases "list_ex (\<lambda>s. probability s < 0) scenarios")
        case True
        then have "fails (prob_loop [] scenarios)" by (simp add: prob_loop_fails)
        then obtain e where "prob_loop [] scenarios = Inl e"
          by (auto simp add: fails_def split: sum.splits)
        moreover from True have "list_ex (\<lambda>s. probability s < 0 \<or> demand_multiplier s < 0) scenarios"
          by (auto simp add: list_ex_iff)
        ultimately show ?thesis using nonempty dist
          by (simp add: generate_demand_scenarios_def names remdups_length_distinct fails_def)
      next
        case noneg: False
        have pl: "prob_loop [] scenarios = Inr (map (\<lambda>s. (name s, probability s)) scenarios)"
          using prob_loop_distinct [of "[]" scenarios] raw noneg by simp
        have ex: "list_ex (\<lambda>s. probability s < 0 \<or> demand_multiplier s < 0) scenarios
                    \<longleftrightarrow> list_ex (\<lambda>s. demand_multiplier s < 0) scenarios"
          using noneg by (auto simp add: list_ex_iff)
        have dl: "fails (demand_loop base_data Map.empty scenarios)
                    \<longleftrightarrow> list_ex (\<lambda>s. demand_multiplier s < 0) scenarios"
          by (rule demand_loop_fails)
        show ?thesis using nonempty dist dl
          by (simp add: generate_demand_scenarios_def names remdups_length_distinct pl
              sum_list_snd_prob ex Let_def fails_def split: sum.splits)
      qed
    qed
  qed
next
  fix r s p t
  assume nb: "list_all (\<lambda>s. strip (name s) \<noteq> []) scenarios"
  assume h: "generate_demand_scenarios base_data scenarios = Inr r
            \<and> s \<in> set scenarios \<and> p \<in> set (plant_ids base_data) \<and> t \<in> set (months base_data)"
  note names = nonblank_names [OF nb]
  from h have ok: "generate_demand_scenarios base_data scenarios = Inr r" by simp
  then have dist: "distinct (map (\<lambda>s. strip (name s)) scenarios)"
    by (auto simp add: generate_demand_scenarios_def names remdups_length_distinct Let_def
        split: if_splits)
  then have raw: "distinct (map name scenarios)" by (rule distinct_stripped_names)
  from ok obtain dm where dm: "demand_loop base_data Map.empty scenarios = Inr dm"
    and r: "scenario_demand r = dm"
    by (auto simp add: generate_demand_scenarios_def Let_def split: if_splits sum.splits)
  from demand_loop_lookup [OF dm raw] h r
  show "scenario_demand r (name s, p, t) = Some (demand_multiplier s * base_demand base_data p t)"
    by (simp add: mult.commute)
qed

theorem scenario_generator_amended_witness:
  "list_all (\<lambda>s. strip (name s) \<noteq> []) example_scenarios
   \<and> \<not> fails (generate_demand_scenarios example_data example_scenarios)
   \<and> (\<exists>r. generate_demand_scenarios example_data example_scenarios = Inr r
          \<and> scenario_demand r (''High'', ''B'', ''2025-01'') = Some 88)
   \<and> fails (generate_demand_scenarios example_data (tl example_scenarios))"
proof -
  have nb: "list_all (\<lambda>s. strip (name s) \<noteq> []) example_scenarios"
    by (simp add: example_scenarios_def strip_examples)
  have nb': "list_all (\<lambda>s. strip (name s) \<noteq> []) (tl example_scenarios)"
    by (simp add: example_scenarios_def strip_examples)
  note main = scenario_generator_amended [of example_scenarios example_data]
  from main nb have ok: "\<not> fails (generate_demand_scenarios example_data example_scenarios)"
    by (simp add: example_scenarios_def strip_examples)
  then obtain r where r: "generate_demand_scenarios example_data example_scenarios = Inr r"
    by (auto simp add: fails_def split: sum.splits)
  have "\<lparr> name = ''High'', probability = 0.2, demand_multiplier = 1.1 \<rparr> \<in> set example_scenarios"
    by (simp add: example_scenarios_def)
  moreover have "''B'' \<in> set (plant_ids example_data)" "''2025-01'' \<in> set (months example_data)"
    by (simp_all add: example_data_def)
  ultimately have "scenario_demand r
        (name \<lparr> name = ''High'', probability = 0.2, demand_multiplier = 1.1 \<rparr>, ''B'', ''2025-01'')
      = Some (demand_multiplier \<lparr> name = ''High'', probability = 0.2, demand_multiplier = 1.1 \<rparr>
                * base_demand example_data ''B'' ''2025-01'')"
    using main nb r by blast
  then have d: "scenario_demand r (''High'', ''B'', ''2025-01'') = Some 88"
    by (simp add: base_demand_def example_data_def)
  from scenario_generator_amended [of "tl example_scenarios" example_data] nb'
  have bad: "fails (generate_demand_scenarios example_data (tl example_scenarios))"
    by (simp add: example_scenarios_def strip_examples)
  from nb ok r d bad show ?thesis by blast
qed

section \<open>Routes to unknown plants in the assembler\<close>

lemma routes_loop_filter:
  "routes_loop pids names rt rs
     = routes_loop pids names rt
         [r \<leftarrow> rs. r_from_plant_id r \<in> set pids \<and> r_to_plant_id r \<in> set pids]"
  by (induction pids names rt rs rule: routes_loop.induct) (simp_all add: Let_def)

lemma routes_loop_endpoints:
  "\<lbrakk> routes_loop pids names rt rs = Inr rt';
     \<forall>(i, j, k) \<in> set (rt_routes rt). i \<in> set pids \<and> j \<in> set pids \<rbrakk>
   \<Longrightarrow> \<forall>(i, j, k) \<in> set (rt_routes rt'). i \<in> set pids \<and> j \<in> set pids"
proof (induction pids names rt rs rule: routes_loop.induct)
  case (1 pids names rt)
  then show ?case by simp
next
  case (2 pids names rt r rs)
  show ?case
  proof (cases "r_from_plant_id r \<notin> set pids \<or> r_to_plant_id r \<notin> set pids")
    case True
    with "2.prems" have "routes_loop pids names rt rs = Inr rt'" by simp
    from "2.IH"(1) [OF True this "2.prems"(2)] show ?thesis .
  next
    case False
    let ?key = "(r_from_plant_id r, r_to_plant_id r, strip (r_transport_mode r))"
    let ?rt = "\<lparr> rt_routes = rt_routes rt @ [?key],
                 rt_cost_per_trip = (rt_cost_per_trip rt)(?key \<mapsto> r_cost_per_trip r),
                 rt_capacity_per_trip = (rt_capacity_per_trip rt)(?key \<mapsto> r_capacity_per_trip r),
                 rt_sbq = (rt_sbq rt)(?key \<mapsto> r_sbq r),
                 rt_enabled = (rt_enabled rt)(?key \<mapsto> r_is_enabled r) \<rparr>"
    from False "2.prems"(1)
    have neg: "\<not> (r_capacity_per_trip r < 0 \<or> r_cost_per_trip r < 0 \<or> r_sbq r < 0)"
      and sbq: "\<not> r_sbq r > r_capacity_per_trip r"
      and rest: "routes_loop pids names ?rt rs = Inr rt'"
      by (auto simp add: Let_def split: if_splits)
    have inv: "\<forall>(i, j, k) \<in> set (rt_routes ?rt). i \<in> set pids \<and> j \<in> set pids"
      using False "2.prems"(2) by auto
    from "2.IH"(2) [OF False refl refl neg sbq rest inv] show ?thesis .
  qed
qed

lemma feasibility_checks_Inr:
  "feasibility_checks data = Inr d \<Longrightarrow> d = data"
  by (auto simp add: feasibility_checks_def Let_def split: option.splits prod.splits)

lemma assemble_routes:
  assumes "assemble_optimization_data sm f plants pols dems rs = Inr data"
  shows "plant_ids data = map p_id plants"
    and "\<exists>rt. routes_loop (map p_id plants) (dict_of [(p_id p, p_name p). p \<leftarrow> plants]) no_routes rs = Inr rt
            \<and> routes data = rt_routes rt"
proof -
  from assms obtain rt d0 where
    rl: "routes_loop (map p_id plants) (dict_of [(p_id p, p_name p). p \<leftarrow> plants]) no_routes rs = Inr rt"
    and fc: "feasibility_checks d0 = Inr data"
    and d0: "plant_ids d0 = map p_id plants" "routes d0 = rt_routes rt"
    unfolding assemble_optimization_data_def Let_def
    by (auto split: if_splits sum.splits prod.splits)
  from fc have "data = d0" by (rule feasibility_checks_Inr)
  with d0 rl show "plant_ids data = map p_id plants"
    and "\<exists>rt. routes_loop (map p_id plants) (dict_of [(p_id p, p_name p). p \<leftarrow> plants]) no_routes rs = Inr rt
            \<and> routes data = rt_routes rt"
    by auto
qed

lemma routes_loop_swap:
  assumes "r_from_plant_id r \<notin> set pids \<or> r_to_plant_id r \<notin> set pids"
    and "r_from_plant_id r' \<notin> set pids \<or> r_to_plant_id r' \<notin> set pids"
  shows "routes_loop pids names rt (rs1 @ r # rs2) = routes_loop pids names rt (rs1 @ r' # rs2)"
proof -
  have "[x \<leftarrow> rs1 @ r # rs2. r_from_plant_id x \<in> set pids \<and> r_to_plant_id x \<in> set pids]
      = [x \<leftarrow> rs1 @ r' # rs2. r_from_plant_id x \<in> set pids \<and> r_to_plant_id x \<in> set pids]"
    using assms by auto
  then show ?thesis
    using routes_loop_filter [of pids names rt "rs1 @ r # rs2"]
          routes_loop_filter [of pids names rt "rs1 @ r' # rs2"]
    by simp
qed

lemma assemble_swap:
  assumes "r_from_plant_id r \<notin> set (map p_id plants) \<or> r_to_plant_id r \<notin> set (map p_id plants)"
    and "r_from_plant_id r' \<notin> set (map p_id plants) \<or> r_to_plant_id r' \<notin> set (map p_id plants)"
  shows "assemble_optimization_data sm f plants pols dems (rs1 @ r # rs2)
       = assemble_optimization_data sm f plants pols dems (rs1 @ r' # rs2)"
  unfolding assemble_optimization_data_def Let_def
  by (simp only: routes_loop_swap [OF assms] append_is_Nil_conv list.simps simp_thms)

text \<open>
  Claim C9: a route document whose origin or destination is not among the active plants is
  dropped by the assembler, and none of its numbers is checked. The loop over the routes
  gives the same result as on the list without such documents; replacing such a document
  by any other such document, whatever its cost, capacity and SBQ, leaves the result of
  the whole assembly unchanged; and every route of an assembled data set joins two of its
  plants.
\<close>

theorem unknown_plant_routes_dropped:
  "((r_from_plant_id r \<notin> set (map p_id plants) \<or> r_to_plant_id r \<notin> set (map p_id plants))
     \<and> (r_from_plant_id r' \<notin> set (map p_id plants) \<or> r_to_plant_id r' \<notin> set (map p_id plants))
    \<longrightarrow> assemble_optimization_data sm f plants pols dems (rs1 @ r # rs2)
         = assemble_optimization_data sm f plants pols dems (rs1 @ r' # rs2))
   \<and> routes_loop pids names rt rs
       = routes_loop pids names rt
           [x \<leftarrow> rs. r_from_plant_id x \<in> set pids \<and> r_to_plant_id x \<in> set pids]
   \<and> (assemble_optimization_data sm f plants pols dems rs = Inr data
        \<longrightarrow> (\<forall>(i, j, k) \<in> set (routes data). i \<in> set (plant_ids data) \<and> j \<in> set (plant_ids data)))"
proof (intro conjI impI)
  assume "(r_from_plant_id r \<notin> set (map p_id plants) \<or> r_to_plant_id r \<notin> set (map p_id plants))
     \<and> (r_from_plant_id r' \<notin> set (map p_id plants) \<or> r_to_plant_id r' \<notin> set (map p_id plants))"
  then show "assemble_optimization_data sm f plants pols dems (rs1 @ r # rs2)
         = assemble_optimization_data sm f plants pols dems (rs1 @ r' # rs2)"
    using assemble_swap by blast
next
  show "routes_loop pids names rt rs
       = routes_loop pids names rt
           [x \<leftarrow> rs. r_from_plant_id x \<in> set pids \<and> r_to_plant_id x \<in> set pids]"
    by (rule routes_loop_filter)
next
  assume ok: "assemble_optimization_data sm f plants pols dems rs = Inr data"
  from assemble_routes [OF ok] obtain rt where
    pid: "plant_ids data = map p_id plants"
    and rl: "routes_loop (map p_id plants) (dict_of [(p_id p, p_name p). p \<leftarrow> plants]) no_routes rs = Inr rt"
    and rd: "routes data = rt_routes rt"
    by blast
  have "\<forall>(i, j, k) \<in> set (rt_routes no_routes). i \<in> set (map p_id plants) \<and> j \<in> set (map p_id plants)"
    by (simp add: no_routes_def)
  from routes_loop_endpoints [OF rl this] pid rd
  show "\<forall>(i, j, k) \<in> set (routes data). i \<in> set (plant_ids data) \<and> j \<in> set (plant_ids data)"
    by simp
qed

theorem unknown_plant_routes_dropped_witness:
  "r_from_plant_id stray_route \<notin> set (map p_id example_plants)
   \<and> r_cost_per_trip stray_route < 0 \<and> r_sbq stray_route > r_capacity_per_trip stray_route
   \<and> assemble_optimization_data [''2025-01''] ''Fixed'' example_plants [] example_demands
        [good_route, stray_route]
       = assemble_optimization_data [''2025-01''] ''Fixed'' example_plants [] example_demands
           [good_route, stray_route\<lparr>r_cost_per_trip := 1, r_sbq := 1\<rparr>]
   \<and> (\<exists>data. assemble_optimization_data [''2025-01''] ''Fixed'' example_plants [] example_demands
                 [good_route, stray_route] = Inr data
          \<and> routes data = [(''A'', ''B'', ''Road'')]
          \<and> plant_ids data = [''A'', ''B''])"
proof -
  have stray: "r_from_plant_id stray_route \<notin> set (map p_id example_plants)"
    "r_from_plant_id (stray_route\<lparr>r_cost_per_trip := 1, r_sbq := 1\<rparr>)
       \<notin> set (map p_id example_plants)"
    "r_cost_per_trip stray_route < 0" "r_sbq stray_route > r_capacity_per_trip stray_route"
    by (simp_all add: stray_route_def example_plants_def)
  have same: "assemble_optimization_data [''2025-01''] ''Fixed'' example_plants [] example_demands
        ([good_route] @ stray_route # [])
       = assemble_optimization_data [''2025-01''] ''Fixed'' example_plants [] example_demands
           ([good_route] @ stray_route\<lparr>r_cost_per_trip := 1, r_sbq := 1\<rparr> # [])"
    using unknown_plant_routes_dropped
            [of stray_route example_plants "stray_route\<lparr>r_cost_per_trip := 1, r_sbq := 1\<rparr>"
                "[''2025-01'']" "''Fixed''" "[]" example_demands "[good_route]" "[]"]
          stray
    by blast
  have ex: "\<exists>data. assemble_optimization_data [''2025-01''] ''Fixed'' example_plants []
                      example_demands [good_route, stray_route] = Inr data
          \<and> routes data = [(''A'', ''B'', ''Road'')]
          \<and> plant_ids data = [''A'', ''B'']"
    by (simp add: assemble_optimization_data_def Let_def strip_examples example_plants_def
        example_demands_def good_route_def stray_route_def dict_of_def item_def no_routes_def
        feasibility_checks_def has_inflow_def)
  from stray same ex show ?thesis by simp
qed

end
